theory Spec2Isabelle
  imports Main "HOL-Library.Word"
begin

section \<open>Client options (pkg/client/database/options.go)\<close>

text \<open>
  \<^verbatim>\<open>time.Duration\<close> is a count of nanoseconds; the only value the file computes is the
  constant \<^verbatim>\<open>1 * time.Minute\<close>, so durations are integers here.
\<close>

type_synonym Duration = int

definition Minute :: Duration where
  "Minute = 60 * 1000 * 1000 * 1000"

record databaseOptions =
  scope :: string
  sessionTimeout :: Duration

text \<open>
  \<^verbatim>\<open>Option\<close> is an interface whose only method \<^verbatim>\<open>apply\<close> is unexported, so its
  implementations are the two structs of the file. A value is what \<^verbatim>\<open>WithScope\<close> or
  \<^verbatim>\<open>WithSessionTimeout\<close> returns (both return a non-nil pointer).
\<close>

datatype Option = scopeOption string | sessionTimeoutOption Duration

definition WithScope :: "string \<Rightarrow> Option" where
  "WithScope s = scopeOption s"

definition WithSessionTimeout :: "Duration \<Rightarrow> Option" where
  "WithSessionTimeout timeout = sessionTimeoutOption timeout"

text \<open>\<^verbatim>\<open>apply\<close> mutates the options struct behind the pointer; the model returns it.\<close>

fun apply_option :: "Option \<Rightarrow> databaseOptions \<Rightarrow> databaseOptions" where
  "apply_option (scopeOption s) options = options\<lparr>scope := s\<rparr>"
| "apply_option (sessionTimeoutOption t) options = options\<lparr>sessionTimeout := t\<rparr>"

text \<open>
  The process environment is an argument: \<open>getenv\<close> is \<^verbatim>\<open>os.Getenv\<close>, which gives the
  empty string for a variable that is not set. The loop over \<^verbatim>\<open>opts\<close> is a left fold.
\<close>

definition applyOptions :: "(string \<Rightarrow> string) \<Rightarrow> Option list \<Rightarrow> databaseOptions" where
  "applyOptions getenv opts =
     foldl (\<lambda>options opt. apply_option opt options)
       \<lparr>scope = getenv ''ATOMIX_SCOPE'', sessionTimeout = 1 * Minute\<rparr> opts"

text \<open>The values the options of one kind carry, in list order.\<close>

fun scopes_of :: "Option list \<Rightarrow> string list" where
  "scopes_of [] = []"
| "scopes_of (scopeOption s # opts) = s # scopes_of opts"
| "scopes_of (sessionTimeoutOption t # opts) = scopes_of opts"

fun timeouts_of :: "Option list \<Rightarrow> Duration list" where
  "timeouts_of [] = []"
| "timeouts_of (scopeOption s # opts) = timeouts_of opts"
| "timeouts_of (sessionTimeoutOption t # opts) = t # timeouts_of opts"

section \<open>Values shared by the log client (pkg/client/log/log.go)\<close>

text \<open>
  Go's \<^verbatim>\<open>uint64\<close> and \<^verbatim>\<open>int64\<close> are 64-bit words; a conversion between them
  (\<^verbatim>\<open>Index(response.Index)\<close>, \<^verbatim>\<open>int64(index)\<close>) keeps the bits, so it is the
  identity on the word. A \<^verbatim>\<open>[]byte\<close> is a list of bytes. A \<^verbatim>\<open>time.Time\<close> is a
  count of nanoseconds from the zero time, which is the value of a field that is never
  assigned.
\<close>

type_synonym uint64 = "64 word"
type_synonym int64 = "64 word"
type_synonym bytes = "8 word list"
type_synonym Time = int

definition Time_zero :: Time where
  "Time_zero = 0"

type_synonym Index = uint64
type_synonym Version = uint64

text \<open>
  An \<^verbatim>\<open>error\<close> value: \<open>ErrorString\<close> is what \<^verbatim>\<open>errors.New\<close> builds,
  \<open>TransportError\<close> is an error a remote call returned, \<open>EOF\<close> is the end of a stream,
  \<open>SessionClosed\<close> and \<open>InvalidArgument\<close> are the conditions of the specification, and
  \<open>Panic\<close> is a run-time panic of Go (an index out of range). A Go result
  \<^verbatim>\<open>(*T, error)\<close> is a pair of options, \<open>None\<close> for \<^verbatim>\<open>nil\<close>.
\<close>

datatype error =
    ErrorString string
  | TransportError string
  | EOF
  | SessionClosed
  | InvalidArgument
  | Panic string

definition errors_New :: "string \<Rightarrow> error" where
  "errors_New text = ErrorString text"

record Entry =
  Index :: Index
  Version :: Version
  Value :: bytes
  Timestamp :: Time

type_synonym EventType = string

definition EventNone :: EventType where
  "EventNone = []"

definition EventAppended :: EventType where
  "EventAppended = ''appended''"

definition EventRemoved :: EventType where
  "EventRemoved = ''removed''"

record Event =
  Type :: EventType
  Entry :: "Entry option"

section \<open>The messages of the API (module github.com/atomix/api)\<close>

text \<open>
  The module is a dependency of the repository; the records below have the fields the
  client reads or writes. The enumerations are those of the protocol: the client names
  three statuses and three event types, and every other number a message can carry is the
  last constructor.
\<close>

datatype ResponseStatus =
    ResponseStatus_OK
  | ResponseStatus_PRECONDITION_FAILED
  | ResponseStatus_WRITE_LOCK
  | ResponseStatus_other nat

datatype EventResponse_Type =
    EventResponse_NONE
  | EventResponse_APPENDED
  | EventResponse_REMOVED
  | EventResponse_other nat

record RequestHeader =
  SessionID :: uint64
  RequestID :: uint64
  Index :: uint64

record ResponseHeader =
  SessionID :: uint64
  Index :: uint64

record CreateRequest =
  Header :: RequestHeader
  Timeout :: Duration

record CreateResponse =
  Header :: ResponseHeader

record CloseRequest =
  Header :: RequestHeader
  Delete :: bool

record CloseResponse =
  Header :: ResponseHeader

record AppendRequest =
  Header :: RequestHeader
  Value :: bytes
  Version :: int64

record AppendResponse =
  Header :: ResponseHeader
  Status :: ResponseStatus
  Index :: uint64
  PreviousVersion :: uint64
  Timestamp :: Time

record GetRequest =
  Header :: RequestHeader
  Index :: int64

record GetResponse =
  Header :: ResponseHeader
  Index :: uint64
  Value :: bytes
  Version :: uint64
  Timestamp :: Time

record FirstEntryRequest =
  Header :: RequestHeader

record FirstEntryResponse =
  Header :: ResponseHeader
  Index :: uint64
  Value :: bytes
  Version :: uint64
  Timestamp :: Time

record LastEntryRequest =
  Header :: RequestHeader

record LastEntryResponse =
  Header :: ResponseHeader
  Index :: uint64
  Value :: bytes
  Version :: uint64
  Timestamp :: Time

record PrevEntryRequest =
  Header :: RequestHeader
  Index :: int64

record PrevEntryResponse =
  Header :: ResponseHeader
  Index :: uint64
  Value :: bytes
  Version :: uint64
  Timestamp :: Time

record NextEntryRequest =
  Header :: RequestHeader
  Index :: int64

record NextEntryResponse =
  Header :: ResponseHeader
  Index :: uint64
  Value :: bytes
  Version :: uint64
  Timestamp :: Time

record RemoveRequest =
  Header :: RequestHeader
  Index :: int64

record RemoveResponse =
  Header :: ResponseHeader
  Status :: ResponseStatus
  Index :: uint64
  PreviousValue :: bytes
  PreviousVersion :: uint64

record ReplaceRequest =
  Header :: RequestHeader
  Key :: string
  NewValue :: bytes

record ReplaceResponse =
  Header :: ResponseHeader
  Status :: ResponseStatus
  Index :: uint64

record SizeRequest =
  Header :: RequestHeader

record SizeResponse =
  Header :: ResponseHeader
  Size :: int

record ClearRequest =
  Header :: RequestHeader

record ClearResponse =
  Header :: ResponseHeader

record EventRequest =
  Header :: RequestHeader

record EventResponse =
  Header :: ResponseHeader
  Type :: EventResponse_Type
  Index :: uint64
  Value :: bytes
  Version :: uint64
  Timestamp :: Time

text \<open>
  A server stream, as the client sees it: the outcomes its successive \<^verbatim>\<open>Recv\<close> calls
  return. When they are used up the stream has ended and \<^verbatim>\<open>Recv\<close> returns the
  end-of-stream error.
\<close>

type_synonym LogService_EventsClient = "(error + EventResponse) list"

fun Recv :: "LogService_EventsClient \<Rightarrow> (error + EventResponse) \<times> LogService_EventsClient" where
  "Recv [] = (Inl EOF, [])"
| "Recv (outcome # responses) = (outcome, responses)"

text \<open>The messages a stream delivers before its first error or its end.\<close>

fun received :: "(error + 'm) list \<Rightarrow> 'm list" where
  "received [] = []"
| "received (Inl err # responses) = []"
| "received (Inr response # responses) = response # received responses"

text \<open>
  A service client is what the server at the other end answers to each remote call: an
  error of the transport, or a response.
\<close>

record LogServiceClient =
  Create :: "CreateRequest \<Rightarrow> error + CreateResponse"
  Close :: "CloseRequest \<Rightarrow> error + CloseResponse"
  Append :: "AppendRequest \<Rightarrow> error + AppendResponse"
  Get :: "GetRequest \<Rightarrow> error + GetResponse"
  FirstEntry :: "FirstEntryRequest \<Rightarrow> error + FirstEntryResponse"
  LastEntry :: "LastEntryRequest \<Rightarrow> error + LastEntryResponse"
  PrevEntry :: "PrevEntryRequest \<Rightarrow> error + PrevEntryResponse"
  NextEntry :: "NextEntryRequest \<Rightarrow> error + NextEntryResponse"
  Remove :: "RemoveRequest \<Rightarrow> error + RemoveResponse"
  Size :: "SizeRequest \<Rightarrow> error + SizeResponse"
  Clear :: "ClearRequest \<Rightarrow> error + ClearResponse"
  Events :: "EventRequest \<Rightarrow> error + LogService_EventsClient"

record IndexedMapServiceClient =
  Replace :: "ReplaceRequest \<Rightarrow> error + ReplaceResponse"

text \<open>A \<^verbatim>\<open>grpc.ClientConn\<close> is the services that can be reached over it.\<close>

record ClientConn =
  LogService :: LogServiceClient
  IndexedMapService :: IndexedMapServiceClient

definition NewLogServiceClient :: "ClientConn \<Rightarrow> LogServiceClient" where
  "NewLogServiceClient conn = LogService conn"

definition NewIndexedMapServiceClient :: "ClientConn \<Rightarrow> IndexedMapServiceClient" where
  "NewIndexedMapServiceClient conn = IndexedMapService conn"

section \<open>Names, partitions and the partition router (packages primitive and util)\<close>

text \<open>
  The packages primitive, util and session belong to the repository but are not among its
  sources here; what the log client uses of them is written from the specification.
\<close>

text \<open>Modelled from the spec: \<^verbatim>\<open>primitive.Name\<close>, the logical primitive name and its
  namespace (section 3, Session, Name).\<close>

record primitive_Name =
  Namespace :: string
  Name :: string

text \<open>Modelled from the spec: \<^verbatim>\<open>primitive.Partition\<close> (section 3, Partition): a stable
  ordinal and a live transport handle. The handle is what the server answers, and the
  answer may change from one call to the next: \<open>Conn p k\<close> is the connection as it
  behaves when a session has made \<open>k\<close> calls over it.\<close>

record Partition =
  ID :: int
  Conn :: "nat \<Rightarrow> ClientConn"

text \<open>Modelled from the spec: \<^verbatim>\<open>util.GetPartitionIndex\<close> (section 4.1): hash the
  primitive name to a non-negative integer and reduce modulo the partition count; fail
  with \<open>InvalidArgument\<close> when the count is not positive. The specification does not
  fix the hash, which is the first argument.\<close>

definition GetPartitionIndex :: "(string \<Rightarrow> nat) \<Rightarrow> string \<Rightarrow> int \<Rightarrow> error + int" where
  "GetPartitionIndex hash name partitions =
     (if partitions \<le> 0 then Inl InvalidArgument
      else Inr (int (hash name) mod partitions))"

section \<open>The session (package session)\<close>

text \<open>Modelled from the spec: the lifecycle states of section 4.2.\<close>

datatype Lifecycle = Unopened | Opening | Open | Closing | Closed | Deleted

text \<open>Modelled from the spec: \<^verbatim>\<open>session.Session\<close> (section 3, Session): identity, name,
  partition, timeout, sequence counter and last observed index, with the lifecycle state
  of section 4.2. \<open>calls\<close> counts the calls the session has attempted against the
  transport. The table of streams and the keepalive driver are left out: no operation
  below reads them.\<close>

record Session =
  Name :: primitive_Name
  Partition :: Partition
  SessionID :: uint64
  Timeout :: Duration
  lifecycle :: Lifecycle
  sequence :: uint64
  lastIndex :: uint64
  calls :: nat

text \<open>Modelled from the spec: \<^verbatim>\<open>session.Option\<close>, the session timeout of section 6.\<close>

datatype session_Option = session_WithTimeout Duration

text \<open>Modelled from the spec: a \<^verbatim>\<open>context.Context\<close> bounds the retries of a call
  (sections 4.3 and 7: transient errors are retried up to the limits of the policy). It is
  the number of further attempts that fit before the deadline.\<close>

type_synonym Context = nat

text \<open>Modelled from the spec: the request header of section 3: session identifier,
  sequence number and last observed index.\<close>

definition requestHeader :: "Session \<Rightarrow> RequestHeader" where
  "requestHeader s =
     \<lparr>RequestHeader.SessionID = Session.SessionID s, RequestHeader.RequestID = sequence s,
      RequestHeader.Index = lastIndex s\<rparr>"

text \<open>Modelled from the spec: the classification of section 7; only a failure of the
  transport is retried.\<close>

fun retriable :: "error \<Rightarrow> bool" where
  "retriable (TransportError text) = True"
| "retriable err = False"

text \<open>Modelled from the spec: the executor of section 4.3. It sends the call with the
  header; on success the last observed index becomes the highest response index seen; a
  transient failure is retried with the same header while attempts remain, any other
  failure is returned. Every attempt is a call against the transport.\<close>

fun dispatch :: "Context \<Rightarrow> Session \<Rightarrow> RequestHeader \<Rightarrow>
    (ClientConn \<Rightarrow> RequestHeader \<Rightarrow> error + ResponseHeader \<times> 'r) \<Rightarrow> (error + 'r) \<times> Session" where
  "dispatch 0 s header f =
     (case f (Conn (Partition s) (calls s)) header of
        Inl err \<Rightarrow> (Inl err, s\<lparr>calls := calls s + 1\<rparr>)
      | Inr (responseHeader, response) \<Rightarrow>
          (Inr response,
           s\<lparr>calls := calls s + 1,
             lastIndex := max (lastIndex s) (ResponseHeader.Index responseHeader)\<rparr>))"
| "dispatch (Suc ctx) s header f =
     (case f (Conn (Partition s) (calls s)) header of
        Inl err \<Rightarrow>
          (if retriable err then dispatch ctx (s\<lparr>calls := calls s + 1\<rparr>) header f
           else (Inl err, s\<lparr>calls := calls s + 1\<rparr>))
      | Inr (responseHeader, response) \<Rightarrow>
          (Inr response,
           s\<lparr>calls := calls s + 1,
             lastIndex := max (lastIndex s) (ResponseHeader.Index responseHeader)\<rparr>))"

text \<open>Modelled from the spec: \<^verbatim>\<open>Session.DoCommand\<close> (sections 4.2 and 4.3). A session
  that is not open fails with \<open>SessionClosed\<close> and attempts no call; an open one assigns
  the next sequence number before the dispatch.\<close>

definition DoCommand :: "Context \<Rightarrow> Session \<Rightarrow>
    (ClientConn \<Rightarrow> RequestHeader \<Rightarrow> error + ResponseHeader \<times> 'r) \<Rightarrow> (error + 'r) \<times> Session" where
  "DoCommand ctx s f =
     (if lifecycle s \<noteq> Open then (Inl SessionClosed, s)
      else let s' = s\<lparr>sequence := sequence s + 1\<rparr>
           in dispatch ctx s' (requestHeader s') f)"

text \<open>Modelled from the spec: \<^verbatim>\<open>Session.DoQuery\<close> (sections 4.2 and 4.3): as a command,
  but no sequence number is consumed.\<close>

definition DoQuery :: "Context \<Rightarrow> Session \<Rightarrow>
    (ClientConn \<Rightarrow> RequestHeader \<Rightarrow> error + ResponseHeader \<times> 'r) \<Rightarrow> (error + 'r) \<times> Session" where
  "DoQuery ctx s f =
     (if lifecycle s \<noteq> Open then (Inl SessionClosed, s)
      else dispatch ctx s (requestHeader s) f)"

text \<open>Modelled from the spec: the receive loop of the event stream relay (section 4.5):
  receive one message, deliver it, and stop at the first error of the stream. The result
  is what the delivery conduit carries before it is closed; a stream that never ends has
  no result.\<close>

partial_function (option) relay :: "('st \<Rightarrow> (error + ResponseHeader \<times> 'r) \<times> 'st) \<Rightarrow> 'st \<Rightarrow> 'r list option" where
  "relay recvFn responses =
     (case recvFn responses of
        (Inl err, responses') \<Rightarrow> Some []
      | (Inr (responseHeader, response), responses') \<Rightarrow>
          Option.bind (relay recvFn responses') (\<lambda>delivered. Some (response # delivered)))"

declare relay.simps [code]

text \<open>Modelled from the spec: \<^verbatim>\<open>Session.DoCommandStream\<close> (sections 4.2 and 4.5). A
  session that is not open fails with \<open>SessionClosed\<close> and attempts no call. An open one
  assigns the next sequence number and returns the conduit; the relay task opens the
  streaming call (one call against the transport) and runs the receive loop. A stream
  that cannot be opened ends at once.\<close>

definition DoCommandStream :: "Context \<Rightarrow> Session \<Rightarrow>
    (ClientConn \<Rightarrow> RequestHeader \<Rightarrow> error + 'st) \<Rightarrow>
    ('st \<Rightarrow> (error + ResponseHeader \<times> 'r) \<times> 'st) \<Rightarrow> (error + 'r list option) \<times> Session" where
  "DoCommandStream ctx s openFn recvFn =
     (if lifecycle s \<noteq> Open then (Inl SessionClosed, s)
      else let s' = s\<lparr>sequence := sequence s + 1\<rparr>
           in (case openFn (Conn (Partition s') (calls s')) (requestHeader s') of
                 Inl err \<Rightarrow> (Inr (Some []), s'\<lparr>calls := calls s' + 1\<rparr>)
               | Inr responses \<Rightarrow> (Inr (relay recvFn responses), s'\<lparr>calls := calls s' + 1\<rparr>)))"

text \<open>Modelled from the spec: \<^verbatim>\<open>Session.DoCreate\<close> (section 4.2): one create call; on
  success the session records its identifier.\<close>

definition DoCreate :: "Context \<Rightarrow> Session \<Rightarrow>
    (ClientConn \<Rightarrow> RequestHeader \<Rightarrow> error + ResponseHeader \<times> 'r) \<Rightarrow> error option \<times> Session" where
  "DoCreate ctx s f =
     (case f (Conn (Partition s) (calls s)) (requestHeader s) of
        Inl err \<Rightarrow> (Some err, s\<lparr>calls := calls s + 1\<rparr>)
      | Inr (responseHeader, response) \<Rightarrow>
          (None,
           s\<lparr>calls := calls s + 1,
             SessionID := ResponseHeader.SessionID responseHeader,
             lastIndex := ResponseHeader.Index responseHeader\<rparr>))"

text \<open>Modelled from the spec: \<^verbatim>\<open>Session.DoClose\<close> (section 4.2): one close call.\<close>

definition DoClose :: "Context \<Rightarrow> Session \<Rightarrow>
    (ClientConn \<Rightarrow> RequestHeader \<Rightarrow> error + ResponseHeader \<times> 'r) \<Rightarrow> error option \<times> Session" where
  "DoClose ctx s f =
     (case f (Conn (Partition s) (calls s)) (requestHeader s) of
        Inl err \<Rightarrow> (Some err, s\<lparr>calls := calls s + 1\<rparr>)
      | Inr (responseHeader, response) \<Rightarrow> (None, s\<lparr>calls := calls s + 1\<rparr>))"

text \<open>Modelled from the spec: the handler a primitive gives to its session (section 6,
  \<^verbatim>\<open>Session.open(name, partition, handler, options)\<close>): how to create, close and delete
  the remote session. The Go session keeps the handler; here it is passed to the
  operations that call it.\<close>

record Handler =
  Create :: "Context \<Rightarrow> Session \<Rightarrow> error option \<times> Session"
  Close :: "Context \<Rightarrow> Session \<Rightarrow> error option \<times> Session"
  Delete :: "Context \<Rightarrow> Session \<Rightarrow> error option \<times> Session"

text \<open>Modelled from the spec: \<^verbatim>\<open>session.New\<close> (section 4.2): \<open>Opening\<close> issues a
  create call; on success the session is \<open>Open\<close>; on failure the error is returned and
  there is no session. The timeout is one minute unless an option sets it.\<close>

definition session_New :: "Context \<Rightarrow> primitive_Name \<Rightarrow> Partition \<Rightarrow> Handler \<Rightarrow>
    session_Option list \<Rightarrow> error + Session" where
  "session_New ctx name part handler opts =
     (let s = \<lparr>Session.Name = name, Session.Partition = part, Session.SessionID = 0,
               Session.Timeout = fold (\<lambda>opt timeout. case opt of session_WithTimeout t \<Rightarrow> t) opts Minute,
               Session.lifecycle = Opening, Session.sequence = 0, Session.lastIndex = 0,
               Session.calls = 0\<rparr>
      in case Handler.Create handler ctx s of
           (Some err, s') \<Rightarrow> Inl err
         | (None, s') \<Rightarrow> Inr (s'\<lparr>lifecycle := Open\<rparr>))"

text \<open>Modelled from the spec: \<^verbatim>\<open>Session.Close\<close> (section 4.2): from \<open>Open\<close> the session
  moves to \<open>Closing\<close>, issues the close call, and on completion, success or failure, is
  \<open>Closed\<close>. The specification gives no transition from another state; the session is
  then left as it is and the call fails. \<^verbatim>\<open>Close\<close> takes no context: the handler is
  called with one that allows no retry.\<close>

definition session_Close :: "Handler \<Rightarrow> Session \<Rightarrow> error option \<times> Session" where
  "session_Close handler s =
     (if lifecycle s = Open
      then (case Handler.Close handler 0 (s\<lparr>lifecycle := Closing\<rparr>) of
              (err, s') \<Rightarrow> (err, s'\<lparr>lifecycle := Closed\<rparr>))
      else (Some SessionClosed, s))"

text \<open>Modelled from the spec: \<^verbatim>\<open>Session.Delete\<close> (section 4.2): as the close, with the
  close-with-delete call, ending in \<open>Deleted\<close>.\<close>

definition session_Delete :: "Handler \<Rightarrow> Session \<Rightarrow> error option \<times> Session" where
  "session_Delete handler s =
     (if lifecycle s = Open
      then (case Handler.Delete handler 0 (s\<lparr>lifecycle := Closing\<rparr>) of
              (err, s') \<Rightarrow> (err, s'\<lparr>lifecycle := Deleted\<rparr>))
      else (Some SessionClosed, s))"

section \<open>The session handler of the log (pkg/client/log/session.go)\<close>

text \<open>
  Each handler passes a function literal to the session. The literal receives the
  connection and the header, builds the request, makes the remote call and returns the
  response with its header, or the error of the call.
\<close>

definition sessionHandler_Create_func1 :: "Session \<Rightarrow> ClientConn \<Rightarrow> RequestHeader \<Rightarrow>
    error + ResponseHeader \<times> CreateResponse" where
  "sessionHandler_Create_func1 s conn header =
     (let request = \<lparr>CreateRequest.Header = header, CreateRequest.Timeout = Session.Timeout s\<rparr>;
          client = NewLogServiceClient conn
      in case LogServiceClient.Create client request of
           Inl err \<Rightarrow> Inl err
         | Inr response \<Rightarrow> Inr (CreateResponse.Header response, response))"

definition sessionHandler_Create :: "Context \<Rightarrow> Session \<Rightarrow> error option \<times> Session" where
  "sessionHandler_Create ctx s = DoCreate ctx s (sessionHandler_Create_func1 s)"

definition sessionHandler_Close_func1 :: "ClientConn \<Rightarrow> RequestHeader \<Rightarrow>
    error + ResponseHeader \<times> CloseResponse" where
  "sessionHandler_Close_func1 conn header =
     (let request = \<lparr>CloseRequest.Header = header, CloseRequest.Delete = False\<rparr>;
          client = NewLogServiceClient conn
      in case LogServiceClient.Close client request of
           Inl err \<Rightarrow> Inl err
         | Inr response \<Rightarrow> Inr (CloseResponse.Header response, response))"

definition sessionHandler_Close :: "Context \<Rightarrow> Session \<Rightarrow> error option \<times> Session" where
  "sessionHandler_Close ctx s = DoClose ctx s sessionHandler_Close_func1"

definition sessionHandler_Delete_func1 :: "ClientConn \<Rightarrow> RequestHeader \<Rightarrow>
    error + ResponseHeader \<times> CloseResponse" where
  "sessionHandler_Delete_func1 conn header =
     (let request = \<lparr>CloseRequest.Header = header, CloseRequest.Delete = True\<rparr>;
          client = NewLogServiceClient conn
      in case LogServiceClient.Close client request of
           Inl err \<Rightarrow> Inl err
         | Inr response \<Rightarrow> Inr (CloseResponse.Header response, response))"

definition sessionHandler_Delete :: "Context \<Rightarrow> Session \<Rightarrow> error option \<times> Session" where
  "sessionHandler_Delete ctx s = DoClose ctx s sessionHandler_Delete_func1"

text \<open>The value \<^verbatim>\<open>&sessionHandler{}\<close> that \<^verbatim>\<open>newLog\<close> gives to the session.\<close>

definition sessionHandler :: Handler where
  "sessionHandler =
     \<lparr>Handler.Create = sessionHandler_Create, Handler.Close = sessionHandler_Close,
      Handler.Delete = sessionHandler_Delete\<rparr>"

section \<open>The log (pkg/client/log/log.go)\<close>

text \<open>Modelled from the spec: the option interfaces of the log (section 9): an option is
  a pair of hooks, one applied to the request before the call and one to the response
  after it. The hooks change the message behind a pointer; here they return it.\<close>

record GetOption =
  beforeGet :: "GetRequest \<Rightarrow> GetRequest"
  afterGet :: "GetResponse \<Rightarrow> GetResponse"

record RemoveOption =
  beforeRemove :: "RemoveRequest \<Rightarrow> RemoveRequest"
  afterRemove :: "RemoveResponse \<Rightarrow> RemoveResponse"

record ReplaceOption =
  beforeReplace :: "ReplaceRequest \<Rightarrow> ReplaceRequest"
  afterReplace :: "ReplaceResponse \<Rightarrow> ReplaceResponse"

record WatchOption =
  beforeWatch :: "EventRequest \<Rightarrow> EventRequest"
  afterWatch :: "EventResponse \<Rightarrow> EventResponse"

text \<open>
  The log holds a pointer to its session, and every operation changes the session
  through it: an operation returns its Go result and the log with the session as the
  call left it.
\<close>

record log =
  name :: primitive_Name
  session :: Session

definition newLog :: "Context \<Rightarrow> primitive_Name \<Rightarrow> Partition \<Rightarrow> session_Option list \<Rightarrow> error + log" where
  "newLog ctx name' part opts =
     (case session_New ctx name' part sessionHandler opts of
        Inl err \<Rightarrow> Inl err
      | Inr sess \<Rightarrow> Inr \<lparr>log.name = name', log.session = sess\<rparr>)"

text \<open>
  \<^verbatim>\<open>partitions[i]\<close> panics when \<open>i\<close> is out of range, whatever the router returned.
\<close>

definition New :: "(string \<Rightarrow> nat) \<Rightarrow> Context \<Rightarrow> primitive_Name \<Rightarrow> Partition list \<Rightarrow>
    session_Option list \<Rightarrow> error + log" where
  "New hash ctx name' partitions opts =
     (case GetPartitionIndex hash (primitive_Name.Name name') (int (length partitions)) of
        Inl err \<Rightarrow> Inl err
      | Inr i \<Rightarrow>
          (if 0 \<le> i \<and> i < int (length partitions)
           then newLog ctx name' (partitions ! nat i) opts
           else Inl (Panic ''index out of range'')))"

definition log_Name :: "log \<Rightarrow> primitive_Name" where
  "log_Name l = log.name l"

subsection \<open>Append\<close>

definition log_Append_func1 :: "bytes \<Rightarrow> ClientConn \<Rightarrow> RequestHeader \<Rightarrow>
    error + ResponseHeader \<times> AppendResponse" where
  "log_Append_func1 value conn header =
     (let client = NewLogServiceClient conn;
          request = \<lparr>AppendRequest.Header = header, AppendRequest.Value = value,
                     AppendRequest.Version = - 1\<rparr>
      in case LogServiceClient.Append client request of
           Inl err \<Rightarrow> Inl err
         | Inr response \<Rightarrow> Inr (AppendResponse.Header response, response))"

definition log_Append :: "Context \<Rightarrow> log \<Rightarrow> bytes \<Rightarrow> (Entry option \<times> error option) \<times> log" where
  "log_Append ctx l value =
     (case DoCommand ctx (log.session l) (log_Append_func1 value) of
        (Inl err, s) \<Rightarrow> ((None, Some err), l\<lparr>log.session := s\<rparr>)
      | (Inr response, s) \<Rightarrow>
          (if AppendResponse.Status response = ResponseStatus_OK
           then (Some \<lparr>Entry.Index = AppendResponse.Index response,
                        Entry.Version = ResponseHeader.Index (AppendResponse.Header response),
                        Entry.Value = value,
                        Entry.Timestamp = Time_zero\<rparr>, None)
           else if AppendResponse.Status response = ResponseStatus_PRECONDITION_FAILED
           then (None, Some (errors_New ''write condition failed''))
           else if AppendResponse.Status response = ResponseStatus_WRITE_LOCK
           then (None, Some (errors_New ''write lock failed''))
           else (Some \<lparr>Entry.Index = AppendResponse.Index response,
                        Entry.Version = AppendResponse.PreviousVersion response,
                        Entry.Value = value,
                        Entry.Timestamp = AppendResponse.Timestamp response\<rparr>, None),
           l\<lparr>log.session := s\<rparr>))"

subsection \<open>Get and GetIndex\<close>

definition log_Get_func1 :: "int64 \<Rightarrow> GetOption list \<Rightarrow> ClientConn \<Rightarrow> RequestHeader \<Rightarrow>
    error + ResponseHeader \<times> GetResponse" where
  "log_Get_func1 index opts conn header =
     (let client = NewLogServiceClient conn;
          request = \<lparr>GetRequest.Header = header, GetRequest.Index = index\<rparr>;
          request = fold beforeGet opts request
      in case LogServiceClient.Get client request of
           Inl err \<Rightarrow> Inl err
         | Inr response \<Rightarrow>
             (let response = fold afterGet opts response
              in Inr (GetResponse.Header response, response)))"

definition log_Get :: "Context \<Rightarrow> log \<Rightarrow> int64 \<Rightarrow> GetOption list \<Rightarrow> (Entry option \<times> error option) \<times> log" where
  "log_Get ctx l index opts =
     (case DoQuery ctx (log.session l) (log_Get_func1 index opts) of
        (Inl err, s) \<Rightarrow> ((None, Some err), l\<lparr>log.session := s\<rparr>)
      | (Inr response, s) \<Rightarrow>
          (if GetResponse.Version response \<noteq> 0
           then (Some \<lparr>Entry.Index = GetResponse.Index response,
                        Entry.Version = GetResponse.Version response,
                        Entry.Value = GetResponse.Value response,
                        Entry.Timestamp = GetResponse.Timestamp response\<rparr>, None)
           else (None, None),
           l\<lparr>log.session := s\<rparr>))"

definition log_GetIndex_func1 :: "Index \<Rightarrow> GetOption list \<Rightarrow> ClientConn \<Rightarrow> RequestHeader \<Rightarrow>
    error + ResponseHeader \<times> GetResponse" where
  "log_GetIndex_func1 index opts conn header =
     (let client = NewLogServiceClient conn;
          request = \<lparr>GetRequest.Header = header, GetRequest.Index = index\<rparr>;
          request = fold beforeGet opts request
      in case LogServiceClient.Get client request of
           Inl err \<Rightarrow> Inl err
         | Inr response \<Rightarrow>
             (let response = fold afterGet opts response
              in Inr (GetResponse.Header response, response)))"

definition log_GetIndex :: "Context \<Rightarrow> log \<Rightarrow> Index \<Rightarrow> GetOption list \<Rightarrow> (Entry option \<times> error option) \<times> log" where
  "log_GetIndex ctx l index opts =
     (case DoQuery ctx (log.session l) (log_GetIndex_func1 index opts) of
        (Inl err, s) \<Rightarrow> ((None, Some err), l\<lparr>log.session := s\<rparr>)
      | (Inr response, s) \<Rightarrow>
          (if GetResponse.Version response \<noteq> 0
           then (Some \<lparr>Entry.Index = GetResponse.Index response,
                        Entry.Version = GetResponse.Version response,
                        Entry.Value = GetResponse.Value response,
                        Entry.Timestamp = GetResponse.Timestamp response\<rparr>, None)
           else (None, None),
           l\<lparr>log.session := s\<rparr>))"

subsection \<open>The index queries\<close>

definition log_FirstIndex_func1 :: "ClientConn \<Rightarrow> RequestHeader \<Rightarrow>
    error + ResponseHeader \<times> FirstEntryResponse" where
  "log_FirstIndex_func1 conn header =
     (let client = NewLogServiceClient conn;
          request = \<lparr>FirstEntryRequest.Header = header\<rparr>
      in case LogServiceClient.FirstEntry client request of
           Inl err \<Rightarrow> Inl err
         | Inr response \<Rightarrow> Inr (FirstEntryResponse.Header response, response))"

definition log_FirstIndex :: "Context \<Rightarrow> log \<Rightarrow> (Index \<times> error option) \<times> log" where
  "log_FirstIndex ctx l =
     (case DoQuery ctx (log.session l) (log_FirstIndex_func1) of
        (Inl err, s) \<Rightarrow> ((0, Some err), l\<lparr>log.session := s\<rparr>)
      | (Inr response, s) \<Rightarrow>
          (if FirstEntryResponse.Version response \<noteq> 0
           then (FirstEntryResponse.Index response, None)
           else (0, None),
           l\<lparr>log.session := s\<rparr>))"

definition log_LastIndex_func1 :: "ClientConn \<Rightarrow> RequestHeader \<Rightarrow>
    error + ResponseHeader \<times> LastEntryResponse" where
  "log_LastIndex_func1 conn header =
     (let client = NewLogServiceClient conn;
          request = \<lparr>LastEntryRequest.Header = header\<rparr>
      in case LogServiceClient.LastEntry client request of
           Inl err \<Rightarrow> Inl err
         | Inr response \<Rightarrow> Inr (LastEntryResponse.Header response, response))"

definition log_LastIndex :: "Context \<Rightarrow> log \<Rightarrow> (Index \<times> error option) \<times> log" where
  "log_LastIndex ctx l =
     (case DoQuery ctx (log.session l) (log_LastIndex_func1) of
        (Inl err, s) \<Rightarrow> ((0, Some err), l\<lparr>log.session := s\<rparr>)
      | (Inr response, s) \<Rightarrow>
          (if LastEntryResponse.Version response \<noteq> 0
           then (LastEntryResponse.Index response, None)
           else (0, None),
           l\<lparr>log.session := s\<rparr>))"

definition log_PrevIndex_func1 :: "Index \<Rightarrow> ClientConn \<Rightarrow> RequestHeader \<Rightarrow>
    error + ResponseHeader \<times> PrevEntryResponse" where
  "log_PrevIndex_func1 index conn header =
     (let client = NewLogServiceClient conn;
          request = \<lparr>PrevEntryRequest.Header = header, PrevEntryRequest.Index = index\<rparr>
      in case LogServiceClient.PrevEntry client request of
           Inl err \<Rightarrow> Inl err
         | Inr response \<Rightarrow> Inr (PrevEntryResponse.Header response, response))"

definition log_PrevIndex :: "Context \<Rightarrow> log \<Rightarrow> Index \<Rightarrow> (Index \<times> error option) \<times> log" where
  "log_PrevIndex ctx l index =
     (case DoQuery ctx (log.session l) (log_PrevIndex_func1 index) of
        (Inl err, s) \<Rightarrow> ((0, Some err), l\<lparr>log.session := s\<rparr>)
      | (Inr response, s) \<Rightarrow>
          (if PrevEntryResponse.Version response \<noteq> 0
           then (PrevEntryResponse.Index response, None)
           else (0, None),
           l\<lparr>log.session := s\<rparr>))"

definition log_NextIndex_func1 :: "Index \<Rightarrow> ClientConn \<Rightarrow> RequestHeader \<Rightarrow>
    error + ResponseHeader \<times> NextEntryResponse" where
  "log_NextIndex_func1 index conn header =
     (let client = NewLogServiceClient conn;
          request = \<lparr>NextEntryRequest.Header = header, NextEntryRequest.Index = index\<rparr>
      in case LogServiceClient.NextEntry client request of
           Inl err \<Rightarrow> Inl err
         | Inr response \<Rightarrow> Inr (NextEntryResponse.Header response, response))"

definition log_NextIndex :: "Context \<Rightarrow> log \<Rightarrow> Index \<Rightarrow> (Index \<times> error option) \<times> log" where
  "log_NextIndex ctx l index =
     (case DoQuery ctx (log.session l) (log_NextIndex_func1 index) of
        (Inl err, s) \<Rightarrow> ((0, Some err), l\<lparr>log.session := s\<rparr>)
      | (Inr response, s) \<Rightarrow>
          (if NextEntryResponse.Version response \<noteq> 0
           then (NextEntryResponse.Index response, None)
           else (0, None),
           l\<lparr>log.session := s\<rparr>))"

subsection \<open>The entry queries\<close>

text \<open>
  The four functions end with \<^verbatim>\<open>return nil, err\<close>, where \<open>err\<close> is the error of the
  query, which is \<^verbatim>\<open>nil\<close> once the check after the query has passed. \<^verbatim>\<open>PrevEntry\<close>
  does not assign the timestamp of its entry.
\<close>

definition log_FirstEntry_func1 :: "ClientConn \<Rightarrow> RequestHeader \<Rightarrow>
    error + ResponseHeader \<times> FirstEntryResponse" where
  "log_FirstEntry_func1 conn header =
     (let client = NewLogServiceClient conn;
          request = \<lparr>FirstEntryRequest.Header = header\<rparr>
      in case LogServiceClient.FirstEntry client request of
           Inl err \<Rightarrow> Inl err
         | Inr response \<Rightarrow> Inr (FirstEntryResponse.Header response, response))"

definition log_FirstEntry :: "Context \<Rightarrow> log \<Rightarrow> (Entry option \<times> error option) \<times> log" where
  "log_FirstEntry ctx l =
     (case DoQuery ctx (log.session l) (log_FirstEntry_func1) of
        (Inl err, s) \<Rightarrow> ((None, Some err), l\<lparr>log.session := s\<rparr>)
      | (Inr response, s) \<Rightarrow>
          (let err = None
           in if FirstEntryResponse.Version response \<noteq> 0
              then (Some \<lparr>Entry.Index = FirstEntryResponse.Index response,
                           Entry.Version = FirstEntryResponse.Version response,
                           Entry.Value = FirstEntryResponse.Value response,
                           Entry.Timestamp = FirstEntryResponse.Timestamp response\<rparr>, None)
              else (None, err),
           l\<lparr>log.session := s\<rparr>))"

definition log_LastEntry_func1 :: "ClientConn \<Rightarrow> RequestHeader \<Rightarrow>
    error + ResponseHeader \<times> LastEntryResponse" where
  "log_LastEntry_func1 conn header =
     (let client = NewLogServiceClient conn;
          request = \<lparr>LastEntryRequest.Header = header\<rparr>
      in case LogServiceClient.LastEntry client request of
           Inl err \<Rightarrow> Inl err
         | Inr response \<Rightarrow> Inr (LastEntryResponse.Header response, response))"

definition log_LastEntry :: "Context \<Rightarrow> log \<Rightarrow> (Entry option \<times> error option) \<times> log" where
  "log_LastEntry ctx l =
     (case DoQuery ctx (log.session l) (log_LastEntry_func1) of
        (Inl err, s) \<Rightarrow> ((None, Some err), l\<lparr>log.session := s\<rparr>)
      | (Inr response, s) \<Rightarrow>
          (let err = None
           in if LastEntryResponse.Version response \<noteq> 0
              then (Some \<lparr>Entry.Index = LastEntryResponse.Index response,
                           Entry.Version = LastEntryResponse.Version response,
                           Entry.Value = LastEntryResponse.Value response,
                           Entry.Timestamp = LastEntryResponse.Timestamp response\<rparr>, None)
              else (None, err),
           l\<lparr>log.session := s\<rparr>))"

definition log_PrevEntry_func1 :: "Index \<Rightarrow> ClientConn \<Rightarrow> RequestHeader \<Rightarrow>
    error + ResponseHeader \<times> PrevEntryResponse" where
  "log_PrevEntry_func1 index conn header =
     (let client = NewLogServiceClient conn;
          request = \<lparr>PrevEntryRequest.Header = header, PrevEntryRequest.Index = index\<rparr>
      in case LogServiceClient.PrevEntry client request of
           Inl err \<Rightarrow> Inl err
         | Inr response \<Rightarrow> Inr (PrevEntryResponse.Header response, response))"

definition log_PrevEntry :: "Context \<Rightarrow> log \<Rightarrow> Index \<Rightarrow> (Entry option \<times> error option) \<times> log" where
  "log_PrevEntry ctx l index =
     (case DoQuery ctx (log.session l) (log_PrevEntry_func1 index) of
        (Inl err, s) \<Rightarrow> ((None, Some err), l\<lparr>log.session := s\<rparr>)
      | (Inr response, s) \<Rightarrow>
          (let err = None
           in if PrevEntryResponse.Version response \<noteq> 0
              then (Some \<lparr>Entry.Index = PrevEntryResponse.Index response,
                           Entry.Version = PrevEntryResponse.Version response,
                           Entry.Value = PrevEntryResponse.Value response,
                           Entry.Timestamp = Time_zero\<rparr>, None)
              else (None, err),
           l\<lparr>log.session := s\<rparr>))"

definition log_NextEntry_func1 :: "Index \<Rightarrow> ClientConn \<Rightarrow> RequestHeader \<Rightarrow>
    error + ResponseHeader \<times> NextEntryResponse" where
  "log_NextEntry_func1 index conn header =
     (let client = NewLogServiceClient conn;
          request = \<lparr>NextEntryRequest.Header = header, NextEntryRequest.Index = index\<rparr>
      in case LogServiceClient.NextEntry client request of
           Inl err \<Rightarrow> Inl err
         | Inr response \<Rightarrow> Inr (NextEntryResponse.Header response, response))"

definition log_NextEntry :: "Context \<Rightarrow> log \<Rightarrow> Index \<Rightarrow> (Entry option \<times> error option) \<times> log" where
  "log_NextEntry ctx l index =
     (case DoQuery ctx (log.session l) (log_NextEntry_func1 index) of
        (Inl err, s) \<Rightarrow> ((None, Some err), l\<lparr>log.session := s\<rparr>)
      | (Inr response, s) \<Rightarrow>
          (let err = None
           in if NextEntryResponse.Version response \<noteq> 0
              then (Some \<lparr>Entry.Index = NextEntryResponse.Index response,
                           Entry.Version = NextEntryResponse.Version response,
                           Entry.Value = NextEntryResponse.Value response,
                           Entry.Timestamp = NextEntryResponse.Timestamp response\<rparr>, None)
              else (None, err),
           l\<lparr>log.session := s\<rparr>))"

subsection \<open>Replace and Remove\<close>

text \<open>
  \<^verbatim>\<open>Replace\<close> is a method of the indexed map that the file carries: its receiver holds a
  session, and its entry has a key.
\<close>

record indexedMap =
  session :: Session

record indexedMap_Entry =
  Index :: Index
  Key :: string
  Value :: bytes
  Version :: Version

definition indexedMap_Replace_func1 :: "string \<Rightarrow> bytes \<Rightarrow> ReplaceOption list \<Rightarrow> ClientConn \<Rightarrow>
    RequestHeader \<Rightarrow> error + ResponseHeader \<times> ReplaceResponse" where
  "indexedMap_Replace_func1 key value opts conn header =
     (let client = NewIndexedMapServiceClient conn;
          request = \<lparr>ReplaceRequest.Header = header, ReplaceRequest.Key = key,
                     ReplaceRequest.NewValue = value\<rparr>;
          request = fold beforeReplace opts request
      in case IndexedMapServiceClient.Replace client request of
           Inl err \<Rightarrow> Inl err
         | Inr response \<Rightarrow>
             (let response = fold afterReplace opts response
              in Inr (ReplaceResponse.Header response, response)))"

definition indexedMap_Replace :: "Context \<Rightarrow> indexedMap \<Rightarrow> string \<Rightarrow> bytes \<Rightarrow> ReplaceOption list \<Rightarrow>
    (indexedMap_Entry option \<times> error option) \<times> indexedMap" where
  "indexedMap_Replace ctx m key value opts =
     (case DoCommand ctx (indexedMap.session m) (indexedMap_Replace_func1 key value opts) of
        (Inl err, s) \<Rightarrow> ((None, Some err), m\<lparr>indexedMap.session := s\<rparr>)
      | (Inr response, s) \<Rightarrow>
          (if ReplaceResponse.Status response = ResponseStatus_OK
           then (Some \<lparr>indexedMap_Entry.Index = ReplaceResponse.Index response,
                        indexedMap_Entry.Key = key,
                        indexedMap_Entry.Value = value,
                        indexedMap_Entry.Version =
                          ResponseHeader.Index (ReplaceResponse.Header response)\<rparr>, None)
           else if ReplaceResponse.Status response = ResponseStatus_PRECONDITION_FAILED
           then (None, Some (errors_New ''write condition failed''))
           else if ReplaceResponse.Status response = ResponseStatus_WRITE_LOCK
           then (None, Some (errors_New ''write lock failed''))
           else (None, None),
           m\<lparr>indexedMap.session := s\<rparr>))"

definition log_Remove_func1 :: "int64 \<Rightarrow> RemoveOption list \<Rightarrow> ClientConn \<Rightarrow> RequestHeader \<Rightarrow>
    error + ResponseHeader \<times> RemoveResponse" where
  "log_Remove_func1 index opts conn header =
     (let client = NewLogServiceClient conn;
          request = \<lparr>RemoveRequest.Header = header, RemoveRequest.Index = index\<rparr>;
          request = fold beforeRemove opts request
      in case LogServiceClient.Remove client request of
           Inl err \<Rightarrow> Inl err
         | Inr response \<Rightarrow>
             (let response = fold afterRemove opts response
              in Inr (RemoveResponse.Header response, response)))"

definition log_Remove :: "Context \<Rightarrow> log \<Rightarrow> int64 \<Rightarrow> RemoveOption list \<Rightarrow>
    (Entry option \<times> error option) \<times> log" where
  "log_Remove ctx l index opts =
     (case DoCommand ctx (log.session l) (log_Remove_func1 index opts) of
        (Inl err, s) \<Rightarrow> ((None, Some err), l\<lparr>log.session := s\<rparr>)
      | (Inr response, s) \<Rightarrow>
          (if RemoveResponse.Status response = ResponseStatus_OK
           then (Some \<lparr>Entry.Index = RemoveResponse.Index response,
                        Entry.Version = RemoveResponse.PreviousVersion response,
                        Entry.Value = RemoveResponse.PreviousValue response,
                        Entry.Timestamp = Time_zero\<rparr>, None)
           else if RemoveResponse.Status response = ResponseStatus_PRECONDITION_FAILED
           then (None, Some (errors_New ''write condition failed''))
           else if RemoveResponse.Status response = ResponseStatus_WRITE_LOCK
           then (None, Some (errors_New ''write lock failed''))
           else (None, None),
           l\<lparr>log.session := s\<rparr>))"

subsection \<open>Len and Clear\<close>

definition log_Len_func1 :: "ClientConn \<Rightarrow> RequestHeader \<Rightarrow> error + ResponseHeader \<times> SizeResponse" where
  "log_Len_func1 conn header =
     (let client = NewLogServiceClient conn;
          request = \<lparr>SizeRequest.Header = header\<rparr>
      in case LogServiceClient.Size client request of
           Inl err \<Rightarrow> Inl err
         | Inr response \<Rightarrow> Inr (SizeResponse.Header response, response))"

definition log_Len :: "Context \<Rightarrow> log \<Rightarrow> (int \<times> error option) \<times> log" where
  "log_Len ctx l =
     (case DoQuery ctx (log.session l) log_Len_func1 of
        (Inl err, s) \<Rightarrow> ((0, Some err), l\<lparr>log.session := s\<rparr>)
      | (Inr response, s) \<Rightarrow> ((SizeResponse.Size response, None), l\<lparr>log.session := s\<rparr>))"

definition log_Clear_func1 :: "ClientConn \<Rightarrow> RequestHeader \<Rightarrow> error + ResponseHeader \<times> ClearResponse" where
  "log_Clear_func1 conn header =
     (let client = NewLogServiceClient conn;
          request = \<lparr>ClearRequest.Header = header\<rparr>
      in case LogServiceClient.Clear client request of
           Inl err \<Rightarrow> Inl err
         | Inr response \<Rightarrow> Inr (ClearResponse.Header response, response))"

definition log_Clear :: "Context \<Rightarrow> log \<Rightarrow> error option \<times> log" where
  "log_Clear ctx l =
     (case DoCommand ctx (log.session l) log_Clear_func1 of
        (Inl err, s) \<Rightarrow> (Some err, l\<lparr>log.session := s\<rparr>)
      | (Inr response, s) \<Rightarrow> (None, l\<lparr>log.session := s\<rparr>))"

subsection \<open>Watch\<close>

text \<open>
  What the relay goroutine does on the channel of the consumer, in order: it sends events
  and, when it returns, the deferred call closes the channel.
\<close>

datatype chan_op = ChanSend Event | ChanClose

definition log_Watch_func1 :: "WatchOption list \<Rightarrow> ClientConn \<Rightarrow> RequestHeader \<Rightarrow>
    error + LogService_EventsClient" where
  "log_Watch_func1 opts conn header =
     (let client = NewLogServiceClient conn;
          request = \<lparr>EventRequest.Header = header\<rparr>;
          request = fold beforeWatch opts request
      in LogServiceClient.Events client request)"

definition log_Watch_func2 :: "WatchOption list \<Rightarrow> LogService_EventsClient \<Rightarrow>
    (error + ResponseHeader \<times> EventResponse) \<times> LogService_EventsClient" where
  "log_Watch_func2 opts responses =
     (case Recv responses of
        (Inl err, responses') \<Rightarrow> (Inl err, responses')
      | (Inr response, responses') \<Rightarrow>
          (let response = fold afterWatch opts response
           in (Inr (EventResponse.Header response, response), responses')))"

text \<open>
  The goroutine: a loop over what the stream of the session delivers, then the deferred
  close. The variable \<open>t\<close> is declared without a value and keeps the zero value of its
  type, the empty string, when no case of the switch assigns it.
\<close>

fun log_Watch_func3 :: "EventResponse list \<Rightarrow> chan_op list" where
  "log_Watch_func3 [] = [ChanClose]"
| "log_Watch_func3 (response # stream) =
     (let t = (case EventResponse.Type response of
                 EventResponse_NONE \<Rightarrow> EventNone
               | EventResponse_APPENDED \<Rightarrow> EventAppended
               | EventResponse_REMOVED \<Rightarrow> EventRemoved
               | EventResponse_other n \<Rightarrow> [])
      in ChanSend \<lparr>Event.Type = t,
                    Event.Entry = Some \<lparr>Entry.Index = EventResponse.Index response,
                                         Entry.Version = EventResponse.Version response,
                                         Entry.Value = EventResponse.Value response,
                                         Entry.Timestamp = EventResponse.Timestamp response\<rparr>\<rparr>
         # log_Watch_func3 stream)"

text \<open>
  The event that the body of the loop sends for one response, as a function of its own.
\<close>

definition log_Watch_event :: "EventResponse \<Rightarrow> Event" where
  "log_Watch_event response =
     (let t = (case EventResponse.Type response of
                 EventResponse_NONE \<Rightarrow> EventNone
               | EventResponse_APPENDED \<Rightarrow> EventAppended
               | EventResponse_REMOVED \<Rightarrow> EventRemoved
               | EventResponse_other n \<Rightarrow> [])
      in \<lparr>Event.Type = t,
          Event.Entry = Some \<lparr>Entry.Index = EventResponse.Index response,
                               Entry.Version = EventResponse.Version response,
                               Entry.Value = EventResponse.Value response,
                               Entry.Timestamp = EventResponse.Timestamp response\<rparr>\<rparr>)"

text \<open>
  \<^verbatim>\<open>Watch\<close> returns its error and what is done on the channel afterwards: nothing when
  the session refused the stream (no goroutine is started), the operations of the
  goroutine otherwise; \<open>None\<close> when the stream never ends.
\<close>

definition log_Watch :: "Context \<Rightarrow> log \<Rightarrow> WatchOption list \<Rightarrow>
    (error option \<times> chan_op list option) \<times> log" where
  "log_Watch ctx l opts =
     (case DoCommandStream ctx (log.session l) (log_Watch_func1 opts) (log_Watch_func2 opts) of
        (Inl err, s) \<Rightarrow> ((Some err, Some []), l\<lparr>log.session := s\<rparr>)
      | (Inr stream, s) \<Rightarrow> ((None, map_option log_Watch_func3 stream), l\<lparr>log.session := s\<rparr>))"

subsection \<open>Close and Delete\<close>

definition log_Close :: "log \<Rightarrow> error option \<times> log" where
  "log_Close l =
     (case session_Close sessionHandler (log.session l) of
        (err, s) \<Rightarrow> (err, l\<lparr>log.session := s\<rparr>))"

definition log_Delete :: "log \<Rightarrow> error option \<times> log" where
  "log_Delete l =
     (case session_Delete sessionHandler (log.session l) of
        (err, s) \<Rightarrow> (err, l\<lparr>log.session := s\<rparr>))"

section \<open>A server for the examples\<close>

text \<open>
  A server that answers every call: its command responses carry the given status, its
  entries the given version, and its event stream delivers three messages and ends.
\<close>

definition example_header :: ResponseHeader where
  "example_header = \<lparr>ResponseHeader.SessionID = 1, ResponseHeader.Index = 10\<rparr>"

definition example_events :: "EventResponse list" where
  "example_events =
     [\<lparr>EventResponse.Header = example_header, EventResponse.Type = EventResponse_NONE,
       EventResponse.Index = 0, EventResponse.Value = [], EventResponse.Version = 0,
       EventResponse.Timestamp = 0\<rparr>,
      \<lparr>EventResponse.Header = example_header, EventResponse.Type = EventResponse_APPENDED,
       EventResponse.Index = 7, EventResponse.Value = [1, 2], EventResponse.Version = 3,
       EventResponse.Timestamp = 99\<rparr>,
      \<lparr>EventResponse.Header = example_header, EventResponse.Type = EventResponse_other 5,
       EventResponse.Index = 8, EventResponse.Value = [4], EventResponse.Version = 4,
       EventResponse.Timestamp = 100\<rparr>]"

definition example_client :: "ResponseStatus \<Rightarrow> uint64 \<Rightarrow> LogServiceClient" where
  "example_client status version =
     \<lparr>LogServiceClient.Create = \<lambda>request. Inr \<lparr>CreateResponse.Header = example_header\<rparr>,
      LogServiceClient.Close = \<lambda>request. Inr \<lparr>CloseResponse.Header = example_header\<rparr>,
      LogServiceClient.Append =
        \<lambda>request. Inr \<lparr>AppendResponse.Header = example_header, AppendResponse.Status = status,
          AppendResponse.Index = 7, AppendResponse.PreviousVersion = 6,
          AppendResponse.Timestamp = 99\<rparr>,
      LogServiceClient.Get =
        \<lambda>request. Inr \<lparr>GetResponse.Header = example_header, GetResponse.Index = GetRequest.Index request,
          GetResponse.Value = [1, 2], GetResponse.Version = version,
          GetResponse.Timestamp = 99\<rparr>,
      LogServiceClient.FirstEntry =
        \<lambda>request. Inr \<lparr>FirstEntryResponse.Header = example_header, FirstEntryResponse.Index = 1,
          FirstEntryResponse.Value = [1, 2], FirstEntryResponse.Version = version,
          FirstEntryResponse.Timestamp = 99\<rparr>,
      LogServiceClient.LastEntry =
        \<lambda>request. Inr \<lparr>LastEntryResponse.Header = example_header, LastEntryResponse.Index = 7,
          LastEntryResponse.Value = [1, 2], LastEntryResponse.Version = version,
          LastEntryResponse.Timestamp = 99\<rparr>,
      LogServiceClient.PrevEntry =
        \<lambda>request. Inr \<lparr>PrevEntryResponse.Header = example_header, PrevEntryResponse.Index = PrevEntryRequest.Index request - 1,
          PrevEntryResponse.Value = [1, 2], PrevEntryResponse.Version = version,
          PrevEntryResponse.Timestamp = 99\<rparr>,
      LogServiceClient.NextEntry =
        \<lambda>request. Inr \<lparr>NextEntryResponse.Header = example_header, NextEntryResponse.Index = NextEntryRequest.Index request + 1,
          NextEntryResponse.Value = [1, 2], NextEntryResponse.Version = version,
          NextEntryResponse.Timestamp = 99\<rparr>,
      LogServiceClient.Remove =
        \<lambda>request. Inr \<lparr>RemoveResponse.Header = example_header, RemoveResponse.Status = status,
          RemoveResponse.Index = RemoveRequest.Index request, RemoveResponse.PreviousValue = [1, 2],
          RemoveResponse.PreviousVersion = 6\<rparr>,
      LogServiceClient.Size =
        \<lambda>request. Inr \<lparr>SizeResponse.Header = example_header, SizeResponse.Size = 3\<rparr>,
      LogServiceClient.Clear = \<lambda>request. Inr \<lparr>ClearResponse.Header = example_header\<rparr>,
      LogServiceClient.Events = \<lambda>request. Inr (map Inr example_events)\<rparr>"

definition example_conn :: "ResponseStatus \<Rightarrow> uint64 \<Rightarrow> ClientConn" where
  "example_conn status version =
     \<lparr>ClientConn.LogService = example_client status version,
      ClientConn.IndexedMapService =
        \<lparr>IndexedMapServiceClient.Replace =
           \<lambda>request. Inr \<lparr>ReplaceResponse.Header = example_header,
             ReplaceResponse.Status = status, ReplaceResponse.Index = 7\<rparr>\<rparr>\<rparr>"

definition example_partition :: "ResponseStatus \<Rightarrow> uint64 \<Rightarrow> Partition" where
  "example_partition status version =
     \<lparr>Partition.ID = 0, Partition.Conn = \<lambda>k. example_conn status version\<rparr>"

definition example_name :: primitive_Name where
  "example_name = \<lparr>primitive_Name.Namespace = ''default'', primitive_Name.Name = ''events''\<rparr>"

definition example_session :: "ResponseStatus \<Rightarrow> uint64 \<Rightarrow> Session" where
  "example_session status version =
     \<lparr>Session.Name = example_name, Session.Partition = example_partition status version,
      Session.SessionID = 1, Session.Timeout = Minute, Session.lifecycle = Open,
      Session.sequence = 0, Session.lastIndex = 0, Session.calls = 0\<rparr>"

definition example_log :: "ResponseStatus \<Rightarrow> uint64 \<Rightarrow> log" where
  "example_log status version =
     \<lparr>log.name = example_name, log.session = example_session status version\<rparr>"

definition example_map :: "ResponseStatus \<Rightarrow> uint64 \<Rightarrow> indexedMap" where
  "example_map status version = \<lparr>indexedMap.session = example_session status version\<rparr>"

section \<open>Resolution of the options\<close>

lemma scope_foldl_apply:
  "scope (foldl (\<lambda>options opt. apply_option opt options) d opts) =
     (if scopes_of opts = [] then scope d else last (scopes_of opts))"
proof (induction opts arbitrary: d)
  case Nil
  show ?case by simp
next
  case (Cons opt opts)
  show ?case by (cases opt) (simp_all add: Cons.IH)
qed

lemma sessionTimeout_foldl_apply:
  "sessionTimeout (foldl (\<lambda>options opt. apply_option opt options) d opts) =
     (if timeouts_of opts = [] then sessionTimeout d else last (timeouts_of opts))"
proof (induction opts arbitrary: d)
  case Nil
  show ?case by simp
next
  case (Cons opt opts)
  show ?case by (cases opt) (simp_all add: Cons.IH)
qed

lemma apply_option_commute:
  "apply_option (scopeOption s) (apply_option (sessionTimeoutOption t) d) =
   apply_option (sessionTimeoutOption t) (apply_option (scopeOption s) d)"
  by simp

section \<open>The results of the commands\<close>

lemma prod_case_fst_snd: "(case p of (a, b) \<Rightarrow> f a b) = f (fst p) (snd p)"
  by (cases p) simp

lemma log_Append_response:
  assumes "fst (DoCommand ctx (log.session l) (log_Append_func1 value)) = Inr response"
  shows "log_Append ctx l value =
    ((if AppendResponse.Status response = ResponseStatus_OK
      then (Some \<lparr>Entry.Index = AppendResponse.Index response,
                   Entry.Version = ResponseHeader.Index (AppendResponse.Header response),
                   Entry.Value = value, Entry.Timestamp = Time_zero\<rparr>, None)
      else if AppendResponse.Status response = ResponseStatus_PRECONDITION_FAILED
      then (None, Some (errors_New ''write condition failed''))
      else if AppendResponse.Status response = ResponseStatus_WRITE_LOCK
      then (None, Some (errors_New ''write lock failed''))
      else (Some \<lparr>Entry.Index = AppendResponse.Index response,
                   Entry.Version = AppendResponse.PreviousVersion response,
                   Entry.Value = value,
                   Entry.Timestamp = AppendResponse.Timestamp response\<rparr>, None)),
     l\<lparr>log.session := snd (DoCommand ctx (log.session l) (log_Append_func1 value))\<rparr>)"
  using assms unfolding log_Append_def prod_case_fst_snd by simp

lemma log_Remove_response:
  assumes "fst (DoCommand ctx (log.session l) (log_Remove_func1 index opts)) = Inr response"
  shows "log_Remove ctx l index opts =
    ((if RemoveResponse.Status response = ResponseStatus_OK
      then (Some \<lparr>Entry.Index = RemoveResponse.Index response,
                   Entry.Version = RemoveResponse.PreviousVersion response,
                   Entry.Value = RemoveResponse.PreviousValue response,
                   Entry.Timestamp = Time_zero\<rparr>, None)
      else if RemoveResponse.Status response = ResponseStatus_PRECONDITION_FAILED
      then (None, Some (errors_New ''write condition failed''))
      else if RemoveResponse.Status response = ResponseStatus_WRITE_LOCK
      then (None, Some (errors_New ''write lock failed''))
      else (None, None)),
     l\<lparr>log.session := snd (DoCommand ctx (log.session l) (log_Remove_func1 index opts))\<rparr>)"
  using assms unfolding log_Remove_def prod_case_fst_snd by simp

lemma indexedMap_Replace_response:
  assumes "fst (DoCommand ctx (indexedMap.session m) (indexedMap_Replace_func1 key value opts)) = Inr response"
  shows "indexedMap_Replace ctx m key value opts =
    ((if ReplaceResponse.Status response = ResponseStatus_OK
      then (Some \<lparr>indexedMap_Entry.Index = ReplaceResponse.Index response,
                   indexedMap_Entry.Key = key, indexedMap_Entry.Value = value,
                   indexedMap_Entry.Version =
                     ResponseHeader.Index (ReplaceResponse.Header response)\<rparr>, None)
      else if ReplaceResponse.Status response = ResponseStatus_PRECONDITION_FAILED
      then (None, Some (errors_New ''write condition failed''))
      else if ReplaceResponse.Status response = ResponseStatus_WRITE_LOCK
      then (None, Some (errors_New ''write lock failed''))
      else (None, None)),
     m\<lparr>indexedMap.session :=
         snd (DoCommand ctx (indexedMap.session m) (indexedMap_Replace_func1 key value opts))\<rparr>)"
  using assms unfolding indexedMap_Replace_def prod_case_fst_snd by simp

lemmas example_defs =
  example_log_def example_map_def example_session_def example_partition_def example_conn_def
  example_client_def example_header_def example_name_def

lemmas executor_defs =
  DoCommand_def DoQuery_def requestHeader_def NewLogServiceClient_def
  NewIndexedMapServiceClient_def

lemma example_Append:
  "fst (DoCommand 0 (log.session (example_log status version)) (log_Append_func1 value)) =
     Inr \<lparr>AppendResponse.Header = example_header, AppendResponse.Status = status,
          AppendResponse.Index = 7, AppendResponse.PreviousVersion = 6,
          AppendResponse.Timestamp = 99\<rparr>"
  by (simp add: example_defs executor_defs log_Append_func1_def)

lemma example_Remove:
  "fst (DoCommand 0 (log.session (example_log status version)) (log_Remove_func1 index [])) =
     Inr \<lparr>RemoveResponse.Header = example_header, RemoveResponse.Status = status,
          RemoveResponse.Index = index, RemoveResponse.PreviousValue = [1, 2],
          RemoveResponse.PreviousVersion = 6\<rparr>"
  by (simp add: example_defs executor_defs log_Remove_func1_def)

lemma example_Replace:
  "fst (DoCommand 0 (indexedMap.session (example_map status version))
         (indexedMap_Replace_func1 key value [])) =
     Inr \<lparr>ReplaceResponse.Header = example_header, ReplaceResponse.Status = status,
          ReplaceResponse.Index = 7\<rparr>"
  by (simp add: example_defs executor_defs indexedMap_Replace_func1_def)

text \<open>
  C3: when the command succeeds with a response whose status is neither OK, nor
  PRECONDITION_FAILED, nor WRITE_LOCK, \<^verbatim>\<open>Append\<close> returns an entry made of the
  index, previous version and timestamp of the response and of the appended value, with
  no error, while \<^verbatim>\<open>Remove\<close> and \<^verbatim>\<open>Replace\<close> return no entry and no error. The
  session is left as the command left it.
\<close>

theorem fallback_status_results:
  "(fst (DoCommand ctx (log.session l) (log_Append_func1 val)) = Inr a
      \<and> AppendResponse.Status a \<noteq> ResponseStatus_OK
      \<and> AppendResponse.Status a \<noteq> ResponseStatus_PRECONDITION_FAILED
      \<and> AppendResponse.Status a \<noteq> ResponseStatus_WRITE_LOCK
    \<longrightarrow> log_Append ctx l val =
          ((Some \<lparr>Entry.Index = AppendResponse.Index a,
                   Entry.Version = AppendResponse.PreviousVersion a,
                   Entry.Value = val,
                   Entry.Timestamp = AppendResponse.Timestamp a\<rparr>, None),
           l\<lparr>log.session := snd (DoCommand ctx (log.session l) (log_Append_func1 val))\<rparr>))
   \<and> (fst (DoCommand ctx (log.session l) (log_Remove_func1 index ropts)) = Inr r
      \<and> RemoveResponse.Status r \<noteq> ResponseStatus_OK
      \<and> RemoveResponse.Status r \<noteq> ResponseStatus_PRECONDITION_FAILED
      \<and> RemoveResponse.Status r \<noteq> ResponseStatus_WRITE_LOCK
    \<longrightarrow> log_Remove ctx l index ropts =
          ((None, None),
           l\<lparr>log.session := snd (DoCommand ctx (log.session l) (log_Remove_func1 index ropts))\<rparr>))
   \<and> (fst (DoCommand ctx (indexedMap.session m) (indexedMap_Replace_func1 key mvalue mopts)) = Inr p
      \<and> ReplaceResponse.Status p \<noteq> ResponseStatus_OK
      \<and> ReplaceResponse.Status p \<noteq> ResponseStatus_PRECONDITION_FAILED
      \<and> ReplaceResponse.Status p \<noteq> ResponseStatus_WRITE_LOCK
    \<longrightarrow> indexedMap_Replace ctx m key mvalue mopts =
          ((None, None),
           m\<lparr>indexedMap.session :=
               snd (DoCommand ctx (indexedMap.session m)
                      (indexedMap_Replace_func1 key mvalue mopts))\<rparr>))"
proof (intro conjI impI)
  assume "fst (DoCommand ctx (log.session l) (log_Append_func1 val)) = Inr a
      \<and> AppendResponse.Status a \<noteq> ResponseStatus_OK
      \<and> AppendResponse.Status a \<noteq> ResponseStatus_PRECONDITION_FAILED
      \<and> AppendResponse.Status a \<noteq> ResponseStatus_WRITE_LOCK"
  then show "log_Append ctx l val =
          ((Some \<lparr>Entry.Index = AppendResponse.Index a,
                   Entry.Version = AppendResponse.PreviousVersion a,
                   Entry.Value = val,
                   Entry.Timestamp = AppendResponse.Timestamp a\<rparr>, None),
           l\<lparr>log.session := snd (DoCommand ctx (log.session l) (log_Append_func1 val))\<rparr>)"
    by (simp add: log_Append_response)
next
  assume "fst (DoCommand ctx (log.session l) (log_Remove_func1 index ropts)) = Inr r
      \<and> RemoveResponse.Status r \<noteq> ResponseStatus_OK
      \<and> RemoveResponse.Status r \<noteq> ResponseStatus_PRECONDITION_FAILED
      \<and> RemoveResponse.Status r \<noteq> ResponseStatus_WRITE_LOCK"
  then show "log_Remove ctx l index ropts =
          ((None, None),
           l\<lparr>log.session := snd (DoCommand ctx (log.session l) (log_Remove_func1 index ropts))\<rparr>)"
    by (simp add: log_Remove_response)
next
  assume "fst (DoCommand ctx (indexedMap.session m) (indexedMap_Replace_func1 key mvalue mopts)) = Inr p
      \<and> ReplaceResponse.Status p \<noteq> ResponseStatus_OK
      \<and> ReplaceResponse.Status p \<noteq> ResponseStatus_PRECONDITION_FAILED
      \<and> ReplaceResponse.Status p \<noteq> ResponseStatus_WRITE_LOCK"
  then show "indexedMap_Replace ctx m key mvalue mopts =
          ((None, None),
           m\<lparr>indexedMap.session :=
               snd (DoCommand ctx (indexedMap.session m)
                      (indexedMap_Replace_func1 key mvalue mopts))\<rparr>)"
    by (simp add: indexedMap_Replace_response)
qed

theorem fallback_status_results_witness:
  "fst (log_Append 0 (example_log (ResponseStatus_other 1) 0) [1, 2]) =
     (Some \<lparr>Entry.Index = 7, Entry.Version = 6, Entry.Value = [1, 2], Entry.Timestamp = 99\<rparr>, None)
   \<and> fst (log_Remove 0 (example_log (ResponseStatus_other 1) 0) 7 []) = (None, None)
   \<and> fst (indexedMap_Replace 0 (example_map (ResponseStatus_other 1) 0) ''k'' [3] []) = (None, None)"
  using fallback_status_results [where ctx = 0 and l = "example_log (ResponseStatus_other 1) 0"
      and m = "example_map (ResponseStatus_other 1) 0" and val = "[1, 2]" and index = 7
      and ropts = "[]" and key = "''k''" and mvalue = "[3]" and mopts = "[]"
      and a = "\<lparr>AppendResponse.Header = example_header, AppendResponse.Status = ResponseStatus_other 1,
          AppendResponse.Index = 7, AppendResponse.PreviousVersion = 6,
          AppendResponse.Timestamp = 99\<rparr>"
      and r = "\<lparr>RemoveResponse.Header = example_header, RemoveResponse.Status = ResponseStatus_other 1,
          RemoveResponse.Index = 7, RemoveResponse.PreviousValue = [1, 2],
          RemoveResponse.PreviousVersion = 6\<rparr>"
      and p = "\<lparr>ReplaceResponse.Header = example_header, ReplaceResponse.Status = ResponseStatus_other 1,
          ReplaceResponse.Index = 7\<rparr>"]
  by (simp add: example_Append example_Remove example_Replace)

lemma dispatch_response:
  assumes "f (Conn (Partition s) (calls s)) header = Inr (h, response)"
  shows "dispatch ctx s header f =
    (Inr response, s\<lparr>calls := calls s + 1, lastIndex := max (lastIndex s) (ResponseHeader.Index h)\<rparr>)"
  using assms by (cases ctx) simp_all

lemma DoCommand_response:
  assumes "lifecycle s = Open"
    and "f (Conn (Partition s) (calls s)) (requestHeader (s\<lparr>sequence := sequence s + 1\<rparr>)) = Inr (h, response)"
  shows "DoCommand ctx s f =
    (Inr response,
     s\<lparr>sequence := sequence s + 1, calls := calls s + 1,
       lastIndex := max (lastIndex s) (ResponseHeader.Index h)\<rparr>)"
proof -
  let ?s = "s\<lparr>sequence := sequence s + 1\<rparr>"
  have "f (Conn (Partition ?s) (calls ?s)) (requestHeader ?s) = Inr (h, response)"
    using assms(2) by simp
  then have "dispatch ctx ?s (requestHeader ?s) f =
      (Inr response,
       ?s\<lparr>calls := calls ?s + 1, lastIndex := max (lastIndex ?s) (ResponseHeader.Index h)\<rparr>)"
    by (rule dispatch_response)
  with assms(1) show ?thesis
    by (simp add: DoCommand_def Let_def)
qed

text \<open>
  C4: when the response of \<^verbatim>\<open>Append\<close>, \<^verbatim>\<open>Remove\<close> or \<^verbatim>\<open>Replace\<close> carries the
  status PRECONDITION_FAILED the call returns no entry and the error "write condition
  failed", and with the status WRITE_LOCK no entry and the error "write lock failed". The
  session is left as the one command left it: nothing is sent again. A command that gets
  a response at its first attempt, whatever the status, has made exactly one call against
  the transport.
\<close>

theorem rejected_commands_return_error:
  "(fst (DoCommand ctx (log.session l) (log_Append_func1 val)) = Inr a \<longrightarrow>
      (AppendResponse.Status a = ResponseStatus_PRECONDITION_FAILED \<longrightarrow>
         log_Append ctx l val =
           ((None, Some (errors_New ''write condition failed'')),
            l\<lparr>log.session := snd (DoCommand ctx (log.session l) (log_Append_func1 val))\<rparr>))
      \<and> (AppendResponse.Status a = ResponseStatus_WRITE_LOCK \<longrightarrow>
         log_Append ctx l val =
           ((None, Some (errors_New ''write lock failed'')),
            l\<lparr>log.session := snd (DoCommand ctx (log.session l) (log_Append_func1 val))\<rparr>)))
   \<and> (fst (DoCommand ctx (log.session l) (log_Remove_func1 index ropts)) = Inr r \<longrightarrow>
      (RemoveResponse.Status r = ResponseStatus_PRECONDITION_FAILED \<longrightarrow>
         log_Remove ctx l index ropts =
           ((None, Some (errors_New ''write condition failed'')),
            l\<lparr>log.session := snd (DoCommand ctx (log.session l) (log_Remove_func1 index ropts))\<rparr>))
      \<and> (RemoveResponse.Status r = ResponseStatus_WRITE_LOCK \<longrightarrow>
         log_Remove ctx l index ropts =
           ((None, Some (errors_New ''write lock failed'')),
            l\<lparr>log.session := snd (DoCommand ctx (log.session l) (log_Remove_func1 index ropts))\<rparr>)))
   \<and> (fst (DoCommand ctx (indexedMap.session m) (indexedMap_Replace_func1 key mvalue mopts)) = Inr p \<longrightarrow>
      (ReplaceResponse.Status p = ResponseStatus_PRECONDITION_FAILED \<longrightarrow>
         indexedMap_Replace ctx m key mvalue mopts =
           ((None, Some (errors_New ''write condition failed'')),
            m\<lparr>indexedMap.session :=
                snd (DoCommand ctx (indexedMap.session m)
                       (indexedMap_Replace_func1 key mvalue mopts))\<rparr>))
      \<and> (ReplaceResponse.Status p = ResponseStatus_WRITE_LOCK \<longrightarrow>
         indexedMap_Replace ctx m key mvalue mopts =
           ((None, Some (errors_New ''write lock failed'')),
            m\<lparr>indexedMap.session :=
                snd (DoCommand ctx (indexedMap.session m)
                       (indexedMap_Replace_func1 key mvalue mopts))\<rparr>)))
   \<and> (lifecycle s = Open
        \<and> f (Conn (Partition s) (calls s)) (requestHeader (s\<lparr>sequence := sequence s + 1\<rparr>)) =
            Inr (h, response)
      \<longrightarrow> fst (DoCommand ctx s f) = Inr response
          \<and> calls (snd (DoCommand ctx s f)) = calls s + 1)"
proof -
  have A: "fst (DoCommand ctx (log.session l) (log_Append_func1 val)) = Inr a \<longrightarrow>
      (AppendResponse.Status a = ResponseStatus_PRECONDITION_FAILED \<longrightarrow>
         log_Append ctx l val =
           ((None, Some (errors_New ''write condition failed'')),
            l\<lparr>log.session := snd (DoCommand ctx (log.session l) (log_Append_func1 val))\<rparr>))
      \<and> (AppendResponse.Status a = ResponseStatus_WRITE_LOCK \<longrightarrow>
         log_Append ctx l val =
           ((None, Some (errors_New ''write lock failed'')),
            l\<lparr>log.session := snd (DoCommand ctx (log.session l) (log_Append_func1 val))\<rparr>))"
    by (simp add: log_Append_response)
  have R: "fst (DoCommand ctx (log.session l) (log_Remove_func1 index ropts)) = Inr r \<longrightarrow>
      (RemoveResponse.Status r = ResponseStatus_PRECONDITION_FAILED \<longrightarrow>
         log_Remove ctx l index ropts =
           ((None, Some (errors_New ''write condition failed'')),
            l\<lparr>log.session := snd (DoCommand ctx (log.session l) (log_Remove_func1 index ropts))\<rparr>))
      \<and> (RemoveResponse.Status r = ResponseStatus_WRITE_LOCK \<longrightarrow>
         log_Remove ctx l index ropts =
           ((None, Some (errors_New ''write lock failed'')),
            l\<lparr>log.session := snd (DoCommand ctx (log.session l) (log_Remove_func1 index ropts))\<rparr>))"
    by (simp add: log_Remove_response)
  have P: "fst (DoCommand ctx (indexedMap.session m) (indexedMap_Replace_func1 key mvalue mopts)) = Inr p \<longrightarrow>
      (ReplaceResponse.Status p = ResponseStatus_PRECONDITION_FAILED \<longrightarrow>
         indexedMap_Replace ctx m key mvalue mopts =
           ((None, Some (errors_New ''write condition failed'')),
            m\<lparr>indexedMap.session :=
                snd (DoCommand ctx (indexedMap.session m)
                       (indexedMap_Replace_func1 key mvalue mopts))\<rparr>))
      \<and> (ReplaceResponse.Status p = ResponseStatus_WRITE_LOCK \<longrightarrow>
         indexedMap_Replace ctx m key mvalue mopts =
           ((None, Some (errors_New ''write lock failed'')),
            m\<lparr>indexedMap.session :=
                snd (DoCommand ctx (indexedMap.session m)
                       (indexedMap_Replace_func1 key mvalue mopts))\<rparr>))"
    by (simp add: indexedMap_Replace_response)
  have D: "lifecycle s = Open
        \<and> f (Conn (Partition s) (calls s)) (requestHeader (s\<lparr>sequence := sequence s + 1\<rparr>)) =
            Inr (h, response)
      \<longrightarrow> fst (DoCommand ctx s f) = Inr response
          \<and> calls (snd (DoCommand ctx s f)) = calls s + 1"
    by (simp add: DoCommand_response)
  from A R P D show ?thesis by (intro conjI)
qed

theorem rejected_commands_return_error_witness:
  "log_Append 0 (example_log ResponseStatus_PRECONDITION_FAILED 0) [1, 2] =
     ((None, Some (ErrorString ''write condition failed'')),
      (example_log ResponseStatus_PRECONDITION_FAILED 0)
        \<lparr>log.session := (example_session ResponseStatus_PRECONDITION_FAILED 0)
            \<lparr>sequence := 1, calls := 1, lastIndex := 10\<rparr>\<rparr>)
   \<and> fst (log_Append 0 (example_log ResponseStatus_WRITE_LOCK 0) [1, 2]) =
     (None, Some (ErrorString ''write lock failed''))
   \<and> fst (log_Remove 0 (example_log ResponseStatus_PRECONDITION_FAILED 0) 7 []) =
     (None, Some (ErrorString ''write condition failed''))
   \<and> fst (log_Remove 0 (example_log ResponseStatus_WRITE_LOCK 0) 7 []) =
     (None, Some (ErrorString ''write lock failed''))
   \<and> fst (indexedMap_Replace 0 (example_map ResponseStatus_PRECONDITION_FAILED 0) ''k'' [3] []) =
     (None, Some (ErrorString ''write condition failed''))
   \<and> fst (indexedMap_Replace 0 (example_map ResponseStatus_WRITE_LOCK 0) ''k'' [3] []) =
     (None, Some (ErrorString ''write lock failed''))"
proof -
  let ?a = "\<lambda>status. \<lparr>AppendResponse.Header = example_header, AppendResponse.Status = status,
          AppendResponse.Index = 7, AppendResponse.PreviousVersion = 6,
          AppendResponse.Timestamp = 99\<rparr>"
  let ?r = "\<lambda>status. \<lparr>RemoveResponse.Header = example_header, RemoveResponse.Status = status,
          RemoveResponse.Index = 7, RemoveResponse.PreviousValue = [1, 2],
          RemoveResponse.PreviousVersion = 6\<rparr>"
  let ?p = "\<lambda>status. \<lparr>ReplaceResponse.Header = example_header, ReplaceResponse.Status = status,
          ReplaceResponse.Index = 7\<rparr>"
  let ?s = "log.session (example_log ResponseStatus_PRECONDITION_FAILED 0)"
  have open_s: "lifecycle ?s = Open"
    by (simp add: example_log_def example_session_def)
  have call: "log_Append_func1 [1, 2] (Conn (Partition ?s) (calls ?s))
      (requestHeader (?s\<lparr>sequence := sequence ?s + 1\<rparr>)) =
      Inr (example_header, ?a ResponseStatus_PRECONDITION_FAILED)"
    by (simp add: example_defs executor_defs log_Append_func1_def)
  have "DoCommand 0 ?s (log_Append_func1 [1, 2]) =
      (Inr (?a ResponseStatus_PRECONDITION_FAILED),
       ?s\<lparr>sequence := sequence ?s + 1, calls := calls ?s + 1,
          lastIndex := max (lastIndex ?s) (ResponseHeader.Index example_header)\<rparr>)"
    using open_s call by (rule DoCommand_response)
  then have after: "snd (DoCommand 0 ?s (log_Append_func1 [1, 2])) =
      (example_session ResponseStatus_PRECONDITION_FAILED 0)
        \<lparr>sequence := 1, calls := 1, lastIndex := 10\<rparr>"
    by (simp add: example_defs)
  note pf = rejected_commands_return_error [where ctx = 0
      and l = "example_log ResponseStatus_PRECONDITION_FAILED 0"
      and m = "example_map ResponseStatus_PRECONDITION_FAILED 0"
      and val = "[1, 2]" and index = 7 and ropts = "[]" and key = "''k''"
      and mvalue = "[3]" and mopts = "[]"
      and a = "?a ResponseStatus_PRECONDITION_FAILED"
      and r = "?r ResponseStatus_PRECONDITION_FAILED"
      and p = "?p ResponseStatus_PRECONDITION_FAILED"
      and s = ?s and f = "log_Append_func1 [1, 2]" and h = example_header
      and response = "?a ResponseStatus_PRECONDITION_FAILED"]
  note wl = rejected_commands_return_error [where ctx = 0
      and l = "example_log ResponseStatus_WRITE_LOCK 0"
      and m = "example_map ResponseStatus_WRITE_LOCK 0"
      and val = "[1, 2]" and index = 7 and ropts = "[]" and key = "''k''"
      and mvalue = "[3]" and mopts = "[]"
      and a = "?a ResponseStatus_WRITE_LOCK"
      and r = "?r ResponseStatus_WRITE_LOCK"
      and p = "?p ResponseStatus_WRITE_LOCK"
      and s = ?s and f = "log_Append_func1 [1, 2]" and h = example_header
      and response = "?a ResponseStatus_PRECONDITION_FAILED"]
  from pf wl after show ?thesis
    by (simp add: example_Append example_Remove example_Replace errors_New_def)
qed

section \<open>The results of the queries\<close>

lemma log_Get_response:
  assumes "fst (DoQuery ctx (log.session l) (log_Get_func1 index opts)) = Inr g"
  shows "log_Get ctx l index opts =
        ((if GetResponse.Version g \<noteq> 0
              then Some \<lparr>Entry.Index = GetResponse.Index g,
                          Entry.Version = GetResponse.Version g,
                          Entry.Value = GetResponse.Value g,
                          Entry.Timestamp = GetResponse.Timestamp g\<rparr>
              else None, None),
         l\<lparr>log.session := snd (DoQuery ctx (log.session l) (log_Get_func1 index opts))\<rparr>)"
  using assms unfolding log_Get_def prod_case_fst_snd by (simp add: Let_def)

lemma log_GetIndex_response:
  assumes "fst (DoQuery ctx (log.session l) (log_GetIndex_func1 i iopts)) = Inr gi"
  shows "log_GetIndex ctx l i iopts =
        ((if GetResponse.Version gi \<noteq> 0
              then Some \<lparr>Entry.Index = GetResponse.Index gi,
                          Entry.Version = GetResponse.Version gi,
                          Entry.Value = GetResponse.Value gi,
                          Entry.Timestamp = GetResponse.Timestamp gi\<rparr>
              else None, None),
         l\<lparr>log.session := snd (DoQuery ctx (log.session l) (log_GetIndex_func1 i iopts))\<rparr>)"
  using assms unfolding log_GetIndex_def prod_case_fst_snd by (simp add: Let_def)

lemma log_FirstIndex_response:
  assumes "fst (DoQuery ctx (log.session l) (log_FirstIndex_func1)) = Inr fi"
  shows "log_FirstIndex ctx l =
        ((if FirstEntryResponse.Version fi \<noteq> 0 then FirstEntryResponse.Index fi else 0, None),
         l\<lparr>log.session := snd (DoQuery ctx (log.session l) (log_FirstIndex_func1))\<rparr>)"
  using assms unfolding log_FirstIndex_def prod_case_fst_snd by (simp add: Let_def)

lemma log_LastIndex_response:
  assumes "fst (DoQuery ctx (log.session l) (log_LastIndex_func1)) = Inr li"
  shows "log_LastIndex ctx l =
        ((if LastEntryResponse.Version li \<noteq> 0 then LastEntryResponse.Index li else 0, None),
         l\<lparr>log.session := snd (DoQuery ctx (log.session l) (log_LastIndex_func1))\<rparr>)"
  using assms unfolding log_LastIndex_def prod_case_fst_snd by (simp add: Let_def)

lemma log_FirstEntry_response:
  assumes "fst (DoQuery ctx (log.session l) (log_FirstEntry_func1)) = Inr fe"
  shows "log_FirstEntry ctx l =
        ((if FirstEntryResponse.Version fe \<noteq> 0
              then Some \<lparr>Entry.Index = FirstEntryResponse.Index fe,
                          Entry.Version = FirstEntryResponse.Version fe,
                          Entry.Value = FirstEntryResponse.Value fe,
                          Entry.Timestamp = FirstEntryResponse.Timestamp fe\<rparr>
              else None, None),
         l\<lparr>log.session := snd (DoQuery ctx (log.session l) (log_FirstEntry_func1))\<rparr>)"
  using assms unfolding log_FirstEntry_def prod_case_fst_snd by (simp add: Let_def)

lemma log_LastEntry_response:
  assumes "fst (DoQuery ctx (log.session l) (log_LastEntry_func1)) = Inr le"
  shows "log_LastEntry ctx l =
        ((if LastEntryResponse.Version le \<noteq> 0
              then Some \<lparr>Entry.Index = LastEntryResponse.Index le,
                          Entry.Version = LastEntryResponse.Version le,
                          Entry.Value = LastEntryResponse.Value le,
                          Entry.Timestamp = LastEntryResponse.Timestamp le\<rparr>
              else None, None),
         l\<lparr>log.session := snd (DoQuery ctx (log.session l) (log_LastEntry_func1))\<rparr>)"
  using assms unfolding log_LastEntry_def prod_case_fst_snd by (simp add: Let_def)

lemma log_PrevEntry_response:
  assumes "fst (DoQuery ctx (log.session l) (log_PrevEntry_func1 j)) = Inr pe"
  shows "log_PrevEntry ctx l j =
        ((if PrevEntryResponse.Version pe \<noteq> 0
              then Some \<lparr>Entry.Index = PrevEntryResponse.Index pe,
                          Entry.Version = PrevEntryResponse.Version pe,
                          Entry.Value = PrevEntryResponse.Value pe,
                          Entry.Timestamp = Time_zero\<rparr>
              else None, None),
         l\<lparr>log.session := snd (DoQuery ctx (log.session l) (log_PrevEntry_func1 j))\<rparr>)"
  using assms unfolding log_PrevEntry_def prod_case_fst_snd by (simp add: Let_def)

lemma log_NextEntry_response:
  assumes "fst (DoQuery ctx (log.session l) (log_NextEntry_func1 k)) = Inr ne"
  shows "log_NextEntry ctx l k =
        ((if NextEntryResponse.Version ne \<noteq> 0
              then Some \<lparr>Entry.Index = NextEntryResponse.Index ne,
                          Entry.Version = NextEntryResponse.Version ne,
                          Entry.Value = NextEntryResponse.Value ne,
                          Entry.Timestamp = NextEntryResponse.Timestamp ne\<rparr>
              else None, None),
         l\<lparr>log.session := snd (DoQuery ctx (log.session l) (log_NextEntry_func1 k))\<rparr>)"
  using assms unfolding log_NextEntry_def prod_case_fst_snd by (simp add: Let_def)

lemma example_Get:
  "fst (DoQuery 0 (log.session (example_log status version)) (log_Get_func1 index [])) =
     Inr \<lparr>GetResponse.Header = example_header, GetResponse.Index = index,
          GetResponse.Value = [1, 2], GetResponse.Version = version,
          GetResponse.Timestamp = 99\<rparr>"
  by (simp add: example_defs executor_defs log_Get_func1_def)

lemma example_GetIndex:
  "fst (DoQuery 0 (log.session (example_log status version)) (log_GetIndex_func1 i [])) =
     Inr \<lparr>GetResponse.Header = example_header, GetResponse.Index = i,
          GetResponse.Value = [1, 2], GetResponse.Version = version,
          GetResponse.Timestamp = 99\<rparr>"
  by (simp add: example_defs executor_defs log_GetIndex_func1_def)

lemma example_FirstIndex:
  "fst (DoQuery 0 (log.session (example_log status version)) (log_FirstIndex_func1)) =
     Inr \<lparr>FirstEntryResponse.Header = example_header, FirstEntryResponse.Index = 1,
          FirstEntryResponse.Value = [1, 2], FirstEntryResponse.Version = version,
          FirstEntryResponse.Timestamp = 99\<rparr>"
  by (simp add: example_defs executor_defs log_FirstIndex_func1_def)

lemma example_LastIndex:
  "fst (DoQuery 0 (log.session (example_log status version)) (log_LastIndex_func1)) =
     Inr \<lparr>LastEntryResponse.Header = example_header, LastEntryResponse.Index = 7,
          LastEntryResponse.Value = [1, 2], LastEntryResponse.Version = version,
          LastEntryResponse.Timestamp = 99\<rparr>"
  by (simp add: example_defs executor_defs log_LastIndex_func1_def)

lemma example_FirstEntry:
  "fst (DoQuery 0 (log.session (example_log status version)) (log_FirstEntry_func1)) =
     Inr \<lparr>FirstEntryResponse.Header = example_header, FirstEntryResponse.Index = 1,
          FirstEntryResponse.Value = [1, 2], FirstEntryResponse.Version = version,
          FirstEntryResponse.Timestamp = 99\<rparr>"
  by (simp add: example_defs executor_defs log_FirstEntry_func1_def)

lemma example_LastEntry:
  "fst (DoQuery 0 (log.session (example_log status version)) (log_LastEntry_func1)) =
     Inr \<lparr>LastEntryResponse.Header = example_header, LastEntryResponse.Index = 7,
          LastEntryResponse.Value = [1, 2], LastEntryResponse.Version = version,
          LastEntryResponse.Timestamp = 99\<rparr>"
  by (simp add: example_defs executor_defs log_LastEntry_func1_def)

lemma example_PrevEntry:
  "fst (DoQuery 0 (log.session (example_log status version)) (log_PrevEntry_func1 j)) =
     Inr \<lparr>PrevEntryResponse.Header = example_header, PrevEntryResponse.Index = j - 1,
          PrevEntryResponse.Value = [1, 2], PrevEntryResponse.Version = version,
          PrevEntryResponse.Timestamp = 99\<rparr>"
  by (simp add: example_defs executor_defs log_PrevEntry_func1_def)

lemma example_NextEntry:
  "fst (DoQuery 0 (log.session (example_log status version)) (log_NextEntry_func1 k)) =
     Inr \<lparr>NextEntryResponse.Header = example_header, NextEntryResponse.Index = k + 1,
          NextEntryResponse.Value = [1, 2], NextEntryResponse.Version = version,
          NextEntryResponse.Timestamp = 99\<rparr>"
  by (simp add: example_defs executor_defs log_NextEntry_func1_def)

text \<open>
  C9: when the query of \<^verbatim>\<open>Get\<close>, \<^verbatim>\<open>GetIndex\<close>, \<^verbatim>\<open>FirstIndex\<close>, \<^verbatim>\<open>LastIndex\<close>,
  \<^verbatim>\<open>FirstEntry\<close>, \<^verbatim>\<open>LastEntry\<close>, \<^verbatim>\<open>PrevEntry\<close> or \<^verbatim>\<open>NextEntry\<close> succeeds, the
  error returned is nil; the entry is nil (the index is zero) when the version of the
  response is 0, and the entry is made of the response (the index is that of the
  response) exactly when the version is not 0. The response is the one the session
  returns, that is, after the hooks of the options.
\<close>

theorem absent_entry_is_nil_without_error:
  "(fst (DoQuery ctx (log.session l) (log_Get_func1 index opts)) = Inr g \<longrightarrow>
      log_Get ctx l index opts =
        ((if GetResponse.Version g \<noteq> 0
              then Some \<lparr>Entry.Index = GetResponse.Index g,
                          Entry.Version = GetResponse.Version g,
                          Entry.Value = GetResponse.Value g,
                          Entry.Timestamp = GetResponse.Timestamp g\<rparr>
              else None, None),
         l\<lparr>log.session := snd (DoQuery ctx (log.session l) (log_Get_func1 index opts))\<rparr>))
   \<and> (fst (DoQuery ctx (log.session l) (log_GetIndex_func1 i iopts)) = Inr gi \<longrightarrow>
      log_GetIndex ctx l i iopts =
        ((if GetResponse.Version gi \<noteq> 0
              then Some \<lparr>Entry.Index = GetResponse.Index gi,
                          Entry.Version = GetResponse.Version gi,
                          Entry.Value = GetResponse.Value gi,
                          Entry.Timestamp = GetResponse.Timestamp gi\<rparr>
              else None, None),
         l\<lparr>log.session := snd (DoQuery ctx (log.session l) (log_GetIndex_func1 i iopts))\<rparr>))
   \<and> (fst (DoQuery ctx (log.session l) (log_FirstIndex_func1)) = Inr fi \<longrightarrow>
      log_FirstIndex ctx l =
        ((if FirstEntryResponse.Version fi \<noteq> 0 then FirstEntryResponse.Index fi else 0, None),
         l\<lparr>log.session := snd (DoQuery ctx (log.session l) (log_FirstIndex_func1))\<rparr>))
   \<and> (fst (DoQuery ctx (log.session l) (log_LastIndex_func1)) = Inr li \<longrightarrow>
      log_LastIndex ctx l =
        ((if LastEntryResponse.Version li \<noteq> 0 then LastEntryResponse.Index li else 0, None),
         l\<lparr>log.session := snd (DoQuery ctx (log.session l) (log_LastIndex_func1))\<rparr>))
   \<and> (fst (DoQuery ctx (log.session l) (log_FirstEntry_func1)) = Inr fe \<longrightarrow>
      log_FirstEntry ctx l =
        ((if FirstEntryResponse.Version fe \<noteq> 0
              then Some \<lparr>Entry.Index = FirstEntryResponse.Index fe,
                          Entry.Version = FirstEntryResponse.Version fe,
                          Entry.Value = FirstEntryResponse.Value fe,
                          Entry.Timestamp = FirstEntryResponse.Timestamp fe\<rparr>
              else None, None),
         l\<lparr>log.session := snd (DoQuery ctx (log.session l) (log_FirstEntry_func1))\<rparr>))
   \<and> (fst (DoQuery ctx (log.session l) (log_LastEntry_func1)) = Inr le \<longrightarrow>
      log_LastEntry ctx l =
        ((if LastEntryResponse.Version le \<noteq> 0
              then Some \<lparr>Entry.Index = LastEntryResponse.Index le,
                          Entry.Version = LastEntryResponse.Version le,
                          Entry.Value = LastEntryResponse.Value le,
                          Entry.Timestamp = LastEntryResponse.Timestamp le\<rparr>
              else None, None),
         l\<lparr>log.session := snd (DoQuery ctx (log.session l) (log_LastEntry_func1))\<rparr>))
   \<and> (fst (DoQuery ctx (log.session l) (log_PrevEntry_func1 j)) = Inr pe \<longrightarrow>
      log_PrevEntry ctx l j =
        ((if PrevEntryResponse.Version pe \<noteq> 0
              then Some \<lparr>Entry.Index = PrevEntryResponse.Index pe,
                          Entry.Version = PrevEntryResponse.Version pe,
                          Entry.Value = PrevEntryResponse.Value pe,
                          Entry.Timestamp = Time_zero\<rparr>
              else None, None),
         l\<lparr>log.session := snd (DoQuery ctx (log.session l) (log_PrevEntry_func1 j))\<rparr>))
   \<and> (fst (DoQuery ctx (log.session l) (log_NextEntry_func1 k)) = Inr ne \<longrightarrow>
      log_NextEntry ctx l k =
        ((if NextEntryResponse.Version ne \<noteq> 0
              then Some \<lparr>Entry.Index = NextEntryResponse.Index ne,
                          Entry.Version = NextEntryResponse.Version ne,
                          Entry.Value = NextEntryResponse.Value ne,
                          Entry.Timestamp = NextEntryResponse.Timestamp ne\<rparr>
              else None, None),
         l\<lparr>log.session := snd (DoQuery ctx (log.session l) (log_NextEntry_func1 k))\<rparr>))"
  by (intro conjI impI log_Get_response log_GetIndex_response log_FirstIndex_response
      log_LastIndex_response log_FirstEntry_response log_LastEntry_response
      log_PrevEntry_response log_NextEntry_response)

theorem absent_entry_is_nil_without_error_witness:
  "fst (log_Get 0 (example_log ResponseStatus_OK 0) 5 []) = (None, None)
   \<and> fst (log_GetIndex 0 (example_log ResponseStatus_OK 0) 5 []) = (None, None)
   \<and> fst (log_FirstIndex 0 (example_log ResponseStatus_OK 0)) = (0, None)
   \<and> fst (log_LastIndex 0 (example_log ResponseStatus_OK 0)) = (0, None)
   \<and> fst (log_FirstEntry 0 (example_log ResponseStatus_OK 0)) = (None, None)
   \<and> fst (log_LastEntry 0 (example_log ResponseStatus_OK 0)) = (None, None)
   \<and> fst (log_PrevEntry 0 (example_log ResponseStatus_OK 0) 5) = (None, None)
   \<and> fst (log_NextEntry 0 (example_log ResponseStatus_OK 0) 5) = (None, None)
   \<and> fst (log_Get 0 (example_log ResponseStatus_OK 3) 5 []) =
       (Some \<lparr>Entry.Index = 5, Entry.Version = 3, Entry.Value = [1, 2], Entry.Timestamp = 99\<rparr>,
        None)
   \<and> fst (log_LastIndex 0 (example_log ResponseStatus_OK 3)) = (7, None)"
  using absent_entry_is_nil_without_error [where ctx = 0 and l = "example_log ResponseStatus_OK 0"
      and index = 5 and opts = "[]" and i = 5 and iopts = "[]" and j = 5 and k = 5
      and g = "\<lparr>GetResponse.Header = example_header, GetResponse.Index = 5,
          GetResponse.Value = [1, 2], GetResponse.Version = 0,
          GetResponse.Timestamp = 99\<rparr>"
      and gi = "\<lparr>GetResponse.Header = example_header, GetResponse.Index = 5,
          GetResponse.Value = [1, 2], GetResponse.Version = 0,
          GetResponse.Timestamp = 99\<rparr>"
      and fi = "\<lparr>FirstEntryResponse.Header = example_header, FirstEntryResponse.Index = 1,
          FirstEntryResponse.Value = [1, 2], FirstEntryResponse.Version = 0,
          FirstEntryResponse.Timestamp = 99\<rparr>"
      and li = "\<lparr>LastEntryResponse.Header = example_header, LastEntryResponse.Index = 7,
          LastEntryResponse.Value = [1, 2], LastEntryResponse.Version = 0,
          LastEntryResponse.Timestamp = 99\<rparr>"
      and fe = "\<lparr>FirstEntryResponse.Header = example_header, FirstEntryResponse.Index = 1,
          FirstEntryResponse.Value = [1, 2], FirstEntryResponse.Version = 0,
          FirstEntryResponse.Timestamp = 99\<rparr>"
      and le = "\<lparr>LastEntryResponse.Header = example_header, LastEntryResponse.Index = 7,
          LastEntryResponse.Value = [1, 2], LastEntryResponse.Version = 0,
          LastEntryResponse.Timestamp = 99\<rparr>"
      and pe = "\<lparr>PrevEntryResponse.Header = example_header, PrevEntryResponse.Index = 5 - 1,
          PrevEntryResponse.Value = [1, 2], PrevEntryResponse.Version = 0,
          PrevEntryResponse.Timestamp = 99\<rparr>"
      and ne = "\<lparr>NextEntryResponse.Header = example_header, NextEntryResponse.Index = 5 + 1,
          NextEntryResponse.Value = [1, 2], NextEntryResponse.Version = 0,
          NextEntryResponse.Timestamp = 99\<rparr>"]
    absent_entry_is_nil_without_error [where ctx = 0 and l = "example_log ResponseStatus_OK 3"
      and index = 5 and opts = "[]" and i = 5 and iopts = "[]" and j = 5 and k = 5
      and g = "\<lparr>GetResponse.Header = example_header, GetResponse.Index = 5,
          GetResponse.Value = [1, 2], GetResponse.Version = 3,
          GetResponse.Timestamp = 99\<rparr>"
      and gi = "\<lparr>GetResponse.Header = example_header, GetResponse.Index = 5,
          GetResponse.Value = [1, 2], GetResponse.Version = 3,
          GetResponse.Timestamp = 99\<rparr>"
      and fi = "\<lparr>FirstEntryResponse.Header = example_header, FirstEntryResponse.Index = 1,
          FirstEntryResponse.Value = [1, 2], FirstEntryResponse.Version = 3,
          FirstEntryResponse.Timestamp = 99\<rparr>"
      and li = "\<lparr>LastEntryResponse.Header = example_header, LastEntryResponse.Index = 7,
          LastEntryResponse.Value = [1, 2], LastEntryResponse.Version = 3,
          LastEntryResponse.Timestamp = 99\<rparr>"
      and fe = "\<lparr>FirstEntryResponse.Header = example_header, FirstEntryResponse.Index = 1,
          FirstEntryResponse.Value = [1, 2], FirstEntryResponse.Version = 3,
          FirstEntryResponse.Timestamp = 99\<rparr>"
      and le = "\<lparr>LastEntryResponse.Header = example_header, LastEntryResponse.Index = 7,
          LastEntryResponse.Value = [1, 2], LastEntryResponse.Version = 3,
          LastEntryResponse.Timestamp = 99\<rparr>"
      and pe = "\<lparr>PrevEntryResponse.Header = example_header, PrevEntryResponse.Index = 5 - 1,
          PrevEntryResponse.Value = [1, 2], PrevEntryResponse.Version = 3,
          PrevEntryResponse.Timestamp = 99\<rparr>"
      and ne = "\<lparr>NextEntryResponse.Header = example_header, NextEntryResponse.Index = 5 + 1,
          NextEntryResponse.Value = [1, 2], NextEntryResponse.Version = 3,
          NextEntryResponse.Timestamp = 99\<rparr>"]
  by (simp add: example_Get example_GetIndex example_FirstIndex example_LastIndex
      example_FirstEntry example_LastEntry example_PrevEntry example_NextEntry)

section \<open>The relay of \<^verbatim>\<open>Watch\<close>\<close>

lemma log_Watch_func3_trace:
  "log_Watch_func3 stream = map (\<lambda>response. ChanSend (log_Watch_event response)) stream @ [ChanClose]"
  by (induction stream) (simp_all add: log_Watch_event_def Let_def)

lemma relay_received:
  "relay (log_Watch_func2 opts) responses =
     Some (map (\<lambda>response. fold afterWatch opts response) (received responses))"
proof (induction responses rule: received.induct)
  case 1
  show ?case by (subst relay.simps) (simp add: log_Watch_func2_def)
next
  case (2 err responses)
  show ?case by (subst relay.simps) (simp add: log_Watch_func2_def)
next
  case (3 response responses)
  show ?case by (subst relay.simps) (simp add: log_Watch_func2_def Let_def "3.IH")
qed



text \<open>
  C5: for every sequence of messages the stream delivers before it ends, what the
  goroutine of \<^verbatim>\<open>Watch\<close> does on the channel of the consumer is: the send of the event
  of each message, in the order of the messages, each once, and then one close. The close
  is the last operation and there is no other. This is what a watch that was opened does;
  when the session refuses the stream \<^verbatim>\<open>Watch\<close> returns the error and nothing is done
  on the channel.
\<close>

theorem watch_delivers_in_order_then_closes:
  "log_Watch_func3 stream =
     map (\<lambda>response. ChanSend (log_Watch_event response)) stream @ [ChanClose]
   \<and> length (filter (\<lambda>op. op = ChanClose) (log_Watch_func3 stream)) = 1
   \<and> last (log_Watch_func3 stream) = ChanClose
   \<and> ChanClose \<notin> set (butlast (log_Watch_func3 stream))
   \<and> (fst (DoCommandStream ctx (log.session l) (log_Watch_func1 opts) (log_Watch_func2 opts)) =
         Inr (Some stream)
       \<longrightarrow> fst (log_Watch ctx l opts) =
           (None, Some (map (\<lambda>response. ChanSend (log_Watch_event response)) stream @ [ChanClose])))
   \<and> (fst (DoCommandStream ctx (log.session l) (log_Watch_func1 opts) (log_Watch_func2 opts)) =
         Inl err
       \<longrightarrow> fst (log_Watch ctx l opts) = (Some err, Some []))"
proof -
  have closes: "length (filter (\<lambda>op. op = ChanClose) (log_Watch_func3 stream)) = 1"
    by (simp add: log_Watch_func3_trace filter_map o_def)
  have final: "last (log_Watch_func3 stream) = ChanClose"
    by (simp add: log_Watch_func3_trace)
  have before: "ChanClose \<notin> set (butlast (log_Watch_func3 stream))"
    by (auto simp add: log_Watch_func3_trace butlast_append)
  have opened: "fst (DoCommandStream ctx (log.session l) (log_Watch_func1 opts) (log_Watch_func2 opts)) =
         Inr (Some stream)
       \<longrightarrow> fst (log_Watch ctx l opts) =
           (None, Some (map (\<lambda>response. ChanSend (log_Watch_event response)) stream @ [ChanClose]))"
    unfolding log_Watch_def prod_case_fst_snd by (simp add: log_Watch_func3_trace)
  have refused: "fst (DoCommandStream ctx (log.session l) (log_Watch_func1 opts) (log_Watch_func2 opts)) =
         Inl err
       \<longrightarrow> fst (log_Watch ctx l opts) = (Some err, Some [])"
    unfolding log_Watch_def prod_case_fst_snd by simp
  from log_Watch_func3_trace [of stream] closes final before opened refused
  show ?thesis by (intro conjI)
qed

lemma example_Watch:
  "fst (DoCommandStream 0 (log.session (example_log status version))
          (log_Watch_func1 []) (log_Watch_func2 [])) = Inr (Some example_events)"
proof -
  have "received (map Inr example_events) = example_events"
    by (simp add: example_events_def)
  then show ?thesis
    by (simp add: DoCommandStream_def Let_def example_log_def example_session_def
        example_partition_def example_conn_def example_client_def log_Watch_func1_def
        NewLogServiceClient_def relay_received)
qed

theorem watch_delivers_in_order_then_closes_witness:
  "fst (log_Watch 0 (example_log ResponseStatus_OK 0) []) =
     (None, Some [ChanSend (log_Watch_event (example_events ! 0)),
                  ChanSend (log_Watch_event (example_events ! 1)),
                  ChanSend (log_Watch_event (example_events ! 2)),
                  ChanClose])
   \<and> fst (log_Watch 0 (snd (log_Close (example_log ResponseStatus_OK 0))) []) =
     (Some SessionClosed, Some [])"
proof -
  have closed: "fst (DoCommandStream 0 (log.session (snd (log_Close (example_log ResponseStatus_OK 0))))
          (log_Watch_func1 []) (log_Watch_func2 [])) = Inl SessionClosed"
    by (simp add: DoCommandStream_def log_Close_def session_Close_def prod_case_fst_snd)
  from watch_delivers_in_order_then_closes [where ctx = 0 and l = "example_log ResponseStatus_OK 0"
      and opts = "[]" and stream = example_events and err = SessionClosed]
    watch_delivers_in_order_then_closes [where ctx = 0
      and l = "snd (log_Close (example_log ResponseStatus_OK 0))"
      and opts = "[]" and stream = example_events and err = SessionClosed]
    closed
  show ?thesis
    by (simp add: example_Watch) (simp add: example_events_def)
qed

section \<open>The session: closing, deleting and routing\<close>

lemma log_Close_closed:
  assumes "lifecycle (log.session l) = Open"
  shows "lifecycle (log.session (snd (log_Close l))) = Closed"
  using assms by (simp add: log_Close_def session_Close_def prod_case_fst_snd)

lemma executor_refuses:
  assumes "lifecycle s \<noteq> Open"
  shows "DoCommand ctx s f = (Inl SessionClosed, s)"
    and "DoQuery ctx s g = (Inl SessionClosed, s)"
    and "DoCommandStream ctx s openFn recvFn = (Inl SessionClosed, s)"
  using assms by (simp_all add: DoCommand_def DoQuery_def DoCommandStream_def)

lemma log_Append_refused:
  assumes "lifecycle (log.session l) \<noteq> Open"
  shows "log_Append ctx l value = ((None, Some SessionClosed), l)"
  using assms by (simp add: log_Append_def executor_refuses)

lemma log_Get_refused:
  assumes "lifecycle (log.session l) \<noteq> Open"
  shows "log_Get ctx l index gopts = ((None, Some SessionClosed), l)"
  using assms by (simp add: log_Get_def executor_refuses)

lemma log_GetIndex_refused:
  assumes "lifecycle (log.session l) \<noteq> Open"
  shows "log_GetIndex ctx l i gopts = ((None, Some SessionClosed), l)"
  using assms by (simp add: log_GetIndex_def executor_refuses)

lemma log_FirstIndex_refused:
  assumes "lifecycle (log.session l) \<noteq> Open"
  shows "log_FirstIndex ctx l = ((0, Some SessionClosed), l)"
  using assms by (simp add: log_FirstIndex_def executor_refuses)

lemma log_LastIndex_refused:
  assumes "lifecycle (log.session l) \<noteq> Open"
  shows "log_LastIndex ctx l = ((0, Some SessionClosed), l)"
  using assms by (simp add: log_LastIndex_def executor_refuses)

lemma log_PrevIndex_refused:
  assumes "lifecycle (log.session l) \<noteq> Open"
  shows "log_PrevIndex ctx l i = ((0, Some SessionClosed), l)"
  using assms by (simp add: log_PrevIndex_def executor_refuses)

lemma log_NextIndex_refused:
  assumes "lifecycle (log.session l) \<noteq> Open"
  shows "log_NextIndex ctx l i = ((0, Some SessionClosed), l)"
  using assms by (simp add: log_NextIndex_def executor_refuses)

lemma log_FirstEntry_refused:
  assumes "lifecycle (log.session l) \<noteq> Open"
  shows "log_FirstEntry ctx l = ((None, Some SessionClosed), l)"
  using assms by (simp add: log_FirstEntry_def executor_refuses)

lemma log_LastEntry_refused:
  assumes "lifecycle (log.session l) \<noteq> Open"
  shows "log_LastEntry ctx l = ((None, Some SessionClosed), l)"
  using assms by (simp add: log_LastEntry_def executor_refuses)

lemma log_PrevEntry_refused:
  assumes "lifecycle (log.session l) \<noteq> Open"
  shows "log_PrevEntry ctx l i = ((None, Some SessionClosed), l)"
  using assms by (simp add: log_PrevEntry_def executor_refuses)

lemma log_NextEntry_refused:
  assumes "lifecycle (log.session l) \<noteq> Open"
  shows "log_NextEntry ctx l i = ((None, Some SessionClosed), l)"
  using assms by (simp add: log_NextEntry_def executor_refuses)

lemma log_Remove_refused:
  assumes "lifecycle (log.session l) \<noteq> Open"
  shows "log_Remove ctx l index ropts = ((None, Some SessionClosed), l)"
  using assms by (simp add: log_Remove_def executor_refuses)

lemma log_Len_refused:
  assumes "lifecycle (log.session l) \<noteq> Open"
  shows "log_Len ctx l = ((0, Some SessionClosed), l)"
  using assms by (simp add: log_Len_def executor_refuses)

lemma log_Clear_refused:
  assumes "lifecycle (log.session l) \<noteq> Open"
  shows "log_Clear ctx l = (Some SessionClosed, l)"
  using assms by (simp add: log_Clear_def executor_refuses)

lemma log_Watch_refused:
  assumes "lifecycle (log.session l) \<noteq> Open"
  shows "log_Watch ctx l wopts = ((Some SessionClosed, Some []), l)"
  using assms by (simp add: log_Watch_def executor_refuses)

text \<open>
  C1: once \<^verbatim>\<open>Close\<close> has returned on a log whose session was open (or closed
  already), the session is \<open>Closed\<close>. After \<^verbatim>\<open>Close\<close>, whatever the state before,
  the session is not open, and every command, query and stream call of the session, hence
  every operation of the log, fails with \<open>SessionClosed\<close> and leaves the session as it
  was: the count of calls against the transport does not change, and the session stays
  as it is for every later call.
\<close>

theorem closed_session_refuses_calls:
  "(let l' = snd (log_Close l); s' = log.session l'
     in (lifecycle (log.session l) = Open \<or> lifecycle (log.session l) = Closed
           \<longrightarrow> lifecycle s' = Closed)
      \<and> lifecycle s' \<noteq> Open
      \<and> (\<forall>ctx (f :: ClientConn \<Rightarrow> RequestHeader \<Rightarrow> error + ResponseHeader \<times> 'c).
          DoCommand ctx s' f = (Inl SessionClosed, s'))
      \<and> (\<forall>ctx (g :: ClientConn \<Rightarrow> RequestHeader \<Rightarrow> error + ResponseHeader \<times> 'q).
          DoQuery ctx s' g = (Inl SessionClosed, s'))
      \<and> (\<forall>ctx (openFn :: ClientConn \<Rightarrow> RequestHeader \<Rightarrow> error + 'st)
            (recvFn :: 'st \<Rightarrow> (error + ResponseHeader \<times> 'm) \<times> 'st).
          DoCommandStream ctx s' openFn recvFn = (Inl SessionClosed, s'))
      \<and> (\<forall>ctx value. log_Append ctx l' value = ((None, Some SessionClosed), l'))
      \<and> (\<forall>ctx index gopts. log_Get ctx l' index gopts = ((None, Some SessionClosed), l'))
      \<and> (\<forall>ctx i gopts. log_GetIndex ctx l' i gopts = ((None, Some SessionClosed), l'))
      \<and> (\<forall>ctx. log_FirstIndex ctx l' = ((0, Some SessionClosed), l'))
      \<and> (\<forall>ctx. log_LastIndex ctx l' = ((0, Some SessionClosed), l'))
      \<and> (\<forall>ctx i. log_PrevIndex ctx l' i = ((0, Some SessionClosed), l'))
      \<and> (\<forall>ctx i. log_NextIndex ctx l' i = ((0, Some SessionClosed), l'))
      \<and> (\<forall>ctx. log_FirstEntry ctx l' = ((None, Some SessionClosed), l'))
      \<and> (\<forall>ctx. log_LastEntry ctx l' = ((None, Some SessionClosed), l'))
      \<and> (\<forall>ctx i. log_PrevEntry ctx l' i = ((None, Some SessionClosed), l'))
      \<and> (\<forall>ctx i. log_NextEntry ctx l' i = ((None, Some SessionClosed), l'))
      \<and> (\<forall>ctx index ropts. log_Remove ctx l' index ropts = ((None, Some SessionClosed), l'))
      \<and> (\<forall>ctx. log_Len ctx l' = ((0, Some SessionClosed), l'))
      \<and> (\<forall>ctx. log_Clear ctx l' = (Some SessionClosed, l'))
      \<and> (\<forall>ctx wopts. log_Watch ctx l' wopts = ((Some SessionClosed, Some []), l')))"
proof -
  have closed: "lifecycle (log.session l) = Open \<or> lifecycle (log.session l) = Closed
      \<longrightarrow> lifecycle (log.session (snd (log_Close l))) = Closed"
  proof (intro impI, elim disjE)
    assume "lifecycle (log.session l) = Open"
    then show "lifecycle (log.session (snd (log_Close l))) = Closed"
      by (rule log_Close_closed)
  next
    assume "lifecycle (log.session l) = Closed"
    then show "lifecycle (log.session (snd (log_Close l))) = Closed"
      by (simp add: log_Close_def session_Close_def)
  qed
  have refused: "lifecycle (log.session (snd (log_Close l))) \<noteq> Open"
  proof (cases "lifecycle (log.session l) = Open")
    case True
    then show ?thesis by (simp add: log_Close_closed)
  next
    case False
    then show ?thesis by (simp add: log_Close_def session_Close_def)
  qed
  show ?thesis
    unfolding Let_def
    by (intro conjI allI closed refused executor_refuses [OF refused]
        log_Append_refused [OF refused]
        log_Get_refused [OF refused]
        log_GetIndex_refused [OF refused]
        log_FirstIndex_refused [OF refused]
        log_LastIndex_refused [OF refused]
        log_PrevIndex_refused [OF refused]
        log_NextIndex_refused [OF refused]
        log_FirstEntry_refused [OF refused]
        log_LastEntry_refused [OF refused]
        log_PrevEntry_refused [OF refused]
        log_NextEntry_refused [OF refused]
        log_Remove_refused [OF refused]
        log_Len_refused [OF refused]
        log_Clear_refused [OF refused]
        log_Watch_refused [OF refused]
        )
qed

theorem closed_session_refuses_calls_witness:
  "lifecycle (log.session (snd (log_Close (example_log ResponseStatus_OK 3)))) = Closed
   \<and> calls (log.session (snd (log_Close (example_log ResponseStatus_OK 3)))) = 1
   \<and> log_Append 0 (snd (log_Close (example_log ResponseStatus_OK 3))) [1, 2] =
       ((None, Some SessionClosed), snd (log_Close (example_log ResponseStatus_OK 3)))
   \<and> log_Get 0 (snd (log_Close (example_log ResponseStatus_OK 3))) 5 [] =
       ((None, Some SessionClosed), snd (log_Close (example_log ResponseStatus_OK 3)))
   \<and> log_Watch 0 (snd (log_Close (example_log ResponseStatus_OK 3))) [] =
       ((Some SessionClosed, Some []), snd (log_Close (example_log ResponseStatus_OK 3)))
   \<and> fst (log_Get 0 (example_log ResponseStatus_OK 3) 5 []) =
       (Some \<lparr>Entry.Index = 5, Entry.Version = 3, Entry.Value = [1, 2], Entry.Timestamp = 99\<rparr>,
        None)"
proof -
  have open_session: "lifecycle (log.session (example_log ResponseStatus_OK 3)) = Open"
    by (simp add: example_log_def example_session_def)
  have one_call: "calls (log.session (snd (log_Close (example_log ResponseStatus_OK 3)))) = 1"
    by (simp add: log_Close_def session_Close_def prod_case_fst_snd sessionHandler_def
        sessionHandler_Close_def DoClose_def sessionHandler_Close_func1_def requestHeader_def
        NewLogServiceClient_def example_log_def example_session_def example_partition_def
        example_conn_def example_client_def)
  have before: "fst (log_Get 0 (example_log ResponseStatus_OK 3) 5 []) =
       (Some \<lparr>Entry.Index = 5, Entry.Version = 3, Entry.Value = [1, 2], Entry.Timestamp = 99\<rparr>,
        None)"
    by (simp add: log_Get_def log_Get_func1_def DoQuery_def requestHeader_def
        NewLogServiceClient_def example_log_def example_session_def example_partition_def
        example_conn_def example_client_def)
  note w = closed_session_refuses_calls [where ?'c = unit and ?'q = unit and ?'st = unit
      and ?'m = unit and l = "example_log ResponseStatus_OK 3", unfolded Let_def]
  from w open_session have closed:
    "lifecycle (log.session (snd (log_Close (example_log ResponseStatus_OK 3)))) = Closed"
    by simp
  from w have append: "log_Append 0 (snd (log_Close (example_log ResponseStatus_OK 3))) [1, 2] =
       ((None, Some SessionClosed), snd (log_Close (example_log ResponseStatus_OK 3)))"
    by simp
  from w have get: "log_Get 0 (snd (log_Close (example_log ResponseStatus_OK 3))) 5 [] =
       ((None, Some SessionClosed), snd (log_Close (example_log ResponseStatus_OK 3)))"
    by simp
  from w have watch: "log_Watch 0 (snd (log_Close (example_log ResponseStatus_OK 3))) [] =
       ((Some SessionClosed, Some []), snd (log_Close (example_log ResponseStatus_OK 3)))"
    by simp
  from closed one_call append get watch before show ?thesis
    by (intro conjI)
qed

text \<open>
  C8: the handlers \<^verbatim>\<open>Close\<close> and \<^verbatim>\<open>Delete\<close> both pass a function to \<^verbatim>\<open>DoClose\<close>
  that makes the close call of the log service with the header it is given; the request
  of \<^verbatim>\<open>Close\<close> has the delete flag unset, the request of \<^verbatim>\<open>Delete\<close> has it set, and
  \<^verbatim>\<open>Delete\<close> is \<^verbatim>\<open>Close\<close> over a connection that sets the flag of every close request
  before sending it.
\<close>

theorem delete_is_close_with_flag:
  "sessionHandler_Close ctx s = DoClose ctx s sessionHandler_Close_func1
   \<and> sessionHandler_Delete ctx s = DoClose ctx s sessionHandler_Delete_func1
   \<and> sessionHandler_Close_func1 conn header =
       (case LogServiceClient.Close (NewLogServiceClient conn)
               \<lparr>CloseRequest.Header = header, CloseRequest.Delete = False\<rparr> of
          Inl err \<Rightarrow> Inl err
        | Inr response \<Rightarrow> Inr (CloseResponse.Header response, response))
   \<and> sessionHandler_Delete_func1 conn header =
       (case LogServiceClient.Close (NewLogServiceClient conn)
               \<lparr>CloseRequest.Header = header, CloseRequest.Delete = True\<rparr> of
          Inl err \<Rightarrow> Inl err
        | Inr response \<Rightarrow> Inr (CloseResponse.Header response, response))
   \<and> sessionHandler_Delete_func1 conn header =
       sessionHandler_Close_func1
         (conn\<lparr>LogService := (LogService conn)
            \<lparr>LogServiceClient.Close :=
               \<lambda>request. LogServiceClient.Close (LogService conn)
                 (request\<lparr>CloseRequest.Delete := True\<rparr>)\<rparr>\<rparr>) header"
  by (simp add: sessionHandler_Close_def sessionHandler_Delete_def
      sessionHandler_Close_func1_def sessionHandler_Delete_func1_def NewLogServiceClient_def)

text \<open>
  C2: for a non-empty list of partitions \<^verbatim>\<open>New\<close> creates the log on the partition
  whose index is the hash of the name modulo the number of partitions; the index is in
  range and depends on the name and the number of partitions only. For an empty list
  \<^verbatim>\<open>New\<close> fails with \<open>InvalidArgument\<close> and returns no log; the router fails so for every
  count that is not positive.
\<close>

theorem partition_selection:
  "(partitions \<noteq> [] \<longrightarrow>
      (\<exists>i. GetPartitionIndex hash (primitive_Name.Name name') (int (length partitions)) = Inr i
         \<and> i = int (hash (primitive_Name.Name name')) mod int (length partitions)
         \<and> 0 \<le> i \<and> i < int (length partitions)
         \<and> New hash ctx name' partitions opts = newLog ctx name' (partitions ! nat i) opts))
   \<and> (partitions = [] \<longrightarrow> New hash ctx name' partitions opts = Inl InvalidArgument)
   \<and> (n \<le> 0 \<longrightarrow> GetPartitionIndex hash nm n = Inl InvalidArgument)
   \<and> (0 < n \<longrightarrow> GetPartitionIndex hash nm n = Inr (int (hash nm) mod n))"
proof -
  have some: "partitions \<noteq> [] \<longrightarrow>
      (\<exists>i. GetPartitionIndex hash (primitive_Name.Name name') (int (length partitions)) = Inr i
         \<and> i = int (hash (primitive_Name.Name name')) mod int (length partitions)
         \<and> 0 \<le> i \<and> i < int (length partitions)
         \<and> New hash ctx name' partitions opts = newLog ctx name' (partitions ! nat i) opts)"
  proof
    assume "partitions \<noteq> []"
    then have pos: "0 < int (length partitions)" by simp
    let ?i = "int (hash (primitive_Name.Name name')) mod int (length partitions)"
    have range: "0 \<le> ?i \<and> ?i < int (length partitions)"
      using pos by simp
    have index: "GetPartitionIndex hash (primitive_Name.Name name') (int (length partitions)) = Inr ?i"
      using pos by (simp add: GetPartitionIndex_def)
    have "New hash ctx name' partitions opts = newLog ctx name' (partitions ! nat ?i) opts"
      using range by (simp add: New_def index)
    with index range show "\<exists>i. GetPartitionIndex hash (primitive_Name.Name name') (int (length partitions)) = Inr i
         \<and> i = int (hash (primitive_Name.Name name')) mod int (length partitions)
         \<and> 0 \<le> i \<and> i < int (length partitions)
         \<and> New hash ctx name' partitions opts = newLog ctx name' (partitions ! nat i) opts"
      by blast
  qed
  have none: "partitions = [] \<longrightarrow> New hash ctx name' partitions opts = Inl InvalidArgument"
    by (simp add: New_def GetPartitionIndex_def)
  have router: "(n \<le> 0 \<longrightarrow> GetPartitionIndex hash nm n = Inl InvalidArgument)
      \<and> (0 < n \<longrightarrow> GetPartitionIndex hash nm n = Inr (int (hash nm) mod n))"
    by (simp add: GetPartitionIndex_def)
  from some none router show ?thesis by blast
qed

theorem partition_selection_witness:
  "New length 0 example_name
     [example_partition ResponseStatus_OK 0, example_partition ResponseStatus_OK 1,
      example_partition ResponseStatus_OK 2, example_partition ResponseStatus_OK 3] [] =
   newLog 0 example_name (example_partition ResponseStatus_OK 2) []
   \<and> New length 0 example_name [] [] = Inl InvalidArgument
   \<and> GetPartitionIndex length ''events'' 4 = Inr 2
   \<and> GetPartitionIndex length ''events'' (- 1) = Inl InvalidArgument"
  using partition_selection [where hash = length and ctx = 0 and name' = example_name
      and opts = "[]" and n = 4 and nm = "''events''"
      and partitions = "[example_partition ResponseStatus_OK 0, example_partition ResponseStatus_OK 1,
        example_partition ResponseStatus_OK 2, example_partition ResponseStatus_OK 3]"]
    partition_selection [where hash = length and ctx = 0 and name' = example_name
      and opts = "[]" and n = "- 1" and nm = "''events''" and partitions = "[]"]
  by (simp add: example_name_def)

section \<open>Properties of the resolved options\<close>

text \<open>
  C6: for every list of options, the session timeout is one minute when the list has no
  session-timeout option, and otherwise the value of the last one; the scope is the value
  of the last scope option, and the variable \<^verbatim>\<open>ATOMIX_SCOPE\<close> of the environment
  when there is none. Each option sets its own field and leaves the other, the options are
  applied in list order, and two adjacent options for distinct fields can be exchanged.
\<close>

theorem applyOptions_resolves:
  "sessionTimeout (applyOptions getenv opts) =
     (if timeouts_of opts = [] then Minute else last (timeouts_of opts))
   \<and> Minute = 60000000000
   \<and> scope (applyOptions getenv opts) =
     (if scopes_of opts = [] then getenv ''ATOMIX_SCOPE'' else last (scopes_of opts))
   \<and> scope (apply_option (WithScope s) d) = s
   \<and> sessionTimeout (apply_option (WithScope s) d) = sessionTimeout d
   \<and> sessionTimeout (apply_option (WithSessionTimeout t) d) = t
   \<and> scope (apply_option (WithSessionTimeout t) d) = scope d
   \<and> applyOptions getenv (opts @ [opt]) = apply_option opt (applyOptions getenv opts)
   \<and> applyOptions getenv (xs @ WithScope s # WithSessionTimeout t # ys) =
       applyOptions getenv (xs @ WithSessionTimeout t # WithScope s # ys)"
proof -
  have a: "sessionTimeout (applyOptions getenv opts) =
     (if timeouts_of opts = [] then Minute else last (timeouts_of opts))"
    unfolding applyOptions_def by (simp add: sessionTimeout_foldl_apply)
  have b: "Minute = 60000000000" by (simp add: Minute_def)
  have c: "scope (applyOptions getenv opts) =
     (if scopes_of opts = [] then getenv ''ATOMIX_SCOPE'' else last (scopes_of opts))"
    unfolding applyOptions_def by (simp add: scope_foldl_apply)
  have d: "scope (apply_option (WithScope s) d) = s
     \<and> sessionTimeout (apply_option (WithScope s) d) = sessionTimeout d
     \<and> sessionTimeout (apply_option (WithSessionTimeout t) d) = t
     \<and> scope (apply_option (WithSessionTimeout t) d) = scope d"
    by (simp add: WithScope_def WithSessionTimeout_def)
  have e: "applyOptions getenv (opts @ [opt]) = apply_option opt (applyOptions getenv opts)"
    unfolding applyOptions_def by simp
  have f: "applyOptions getenv (xs @ WithScope s # WithSessionTimeout t # ys) =
       applyOptions getenv (xs @ WithSessionTimeout t # WithScope s # ys)"
    unfolding applyOptions_def WithScope_def WithSessionTimeout_def
    by (simp only: foldl_append foldl_Cons apply_option_commute)
  from a b c d e f show ?thesis by blast
qed

theorem applyOptions_resolves_witness:
  "sessionTimeout (applyOptions (\<lambda>v. '''') [WithScope ''a'', WithScope ''b'']) = 60000000000
   \<and> scope (applyOptions (\<lambda>v. '''') [WithScope ''a'', WithScope ''b'']) = ''b''
   \<and> sessionTimeout (applyOptions (\<lambda>v. '''') [WithSessionTimeout 5, WithScope ''a'', WithSessionTimeout 7]) = 7"
  using applyOptions_resolves [of "\<lambda>v. ''''" "[WithScope ''a'', WithScope ''b'']"]
    applyOptions_resolves [of "\<lambda>v. ''''" "[WithSessionTimeout 5, WithScope ''a'', WithSessionTimeout 7]"]
  by (simp add: WithScope_def WithSessionTimeout_def)

text \<open>
  C7, as stated, fails: with the same (empty) list of options, two environments that give
  \<^verbatim>\<open>ATOMIX_SCOPE\<close> different values resolve to different options.
\<close>

theorem applyOptions_environment_counterexample:
  "applyOptions (\<lambda>v. if v = ''ATOMIX_SCOPE'' then ''prod'' else '''') [] \<noteq>
   applyOptions (\<lambda>v. '''') []"
  by (simp add: applyOptions_def)

text \<open>
  C7, amended: for the same list of options the session timeout does not depend on the
  environment, and the whole result is the same in two environments whenever the list has
  a scope option or the environments agree on the variable \<^verbatim>\<open>ATOMIX_SCOPE\<close>.
\<close>

theorem applyOptions_same_scope_variable:
  "sessionTimeout (applyOptions getenv1 opts) = sessionTimeout (applyOptions getenv2 opts)
   \<and> (scopes_of opts \<noteq> [] \<or> getenv1 ''ATOMIX_SCOPE'' = getenv2 ''ATOMIX_SCOPE''
        \<longrightarrow> applyOptions getenv1 opts = applyOptions getenv2 opts)"
proof -
  have t: "sessionTimeout (applyOptions getenv1 opts) = sessionTimeout (applyOptions getenv2 opts)"
    unfolding applyOptions_def by (simp add: sessionTimeout_foldl_apply)
  have s: "scope (applyOptions getenv1 opts) = scope (applyOptions getenv2 opts)"
    if "scopes_of opts \<noteq> [] \<or> getenv1 ''ATOMIX_SCOPE'' = getenv2 ''ATOMIX_SCOPE''"
    using that unfolding applyOptions_def by (auto simp add: scope_foldl_apply)
  have "applyOptions getenv1 opts = applyOptions getenv2 opts"
    if "scopes_of opts \<noteq> [] \<or> getenv1 ''ATOMIX_SCOPE'' = getenv2 ''ATOMIX_SCOPE''"
    using s [OF that] t by (rule databaseOptions.equality) simp
  with t show ?thesis by blast
qed

theorem applyOptions_same_scope_variable_witness:
  "applyOptions (\<lambda>v. if v = ''ATOMIX_SCOPE'' then ''prod'' else '''') [WithScope ''a''] =
   applyOptions (\<lambda>v. '''') [WithScope ''a'']
   \<and> applyOptions (\<lambda>v. if v = ''HOME'' then ''/root'' else '''') [] = applyOptions (\<lambda>v. '''') []"
  using applyOptions_same_scope_variable [of "\<lambda>v. if v = ''ATOMIX_SCOPE'' then ''prod'' else ''''" "[WithScope ''a'']" "\<lambda>v. ''''"]
    applyOptions_same_scope_variable [of "\<lambda>v. if v = ''HOME'' then ''/root'' else ''''" "[]" "\<lambda>v. ''''"]
  by (simp add: WithScope_def)

end
